theory Spec2Isabelle
  imports Main "HOL-Library.Word"
begin

unbundle bit_operations_syntax

section \<open>The native FatFs boundary\<close>

text \<open>
  \<open>SD.cpp\<close> is a wrapper around the FatFs driver. The driver's result codes and the
  objects it fills in (\<open>FIL\<close>, \<open>DIR\<close>, \<open>FILINFO\<close>) are declared in the driver's own
  header; the wrapper names the codes \<open>FR_OK\<close>, \<open>FR_EXIST\<close> and \<open>FR_NOT_ENOUGH_CORE\<close> and
  reads the \<open>fs\<close> member of \<open>FIL\<close> and \<open>DIR\<close> (\<open>obj.fs\<close> when \<open>_FATFS == 68300\<close>), the
  file pointer through \<open>f_tell\<close>, the file size through \<open>f_size\<close>, and the \<open>fname\<close>,
  \<open>lfname\<close>, \<open>fattrib\<close>, \<open>fsize\<close>, \<open>fdate\<close> and \<open>ftime\<close> members of \<open>FILINFO\<close>.
\<close>

datatype FRESULT =
    FR_OK | FR_DISK_ERR | FR_INT_ERR | FR_NOT_READY | FR_NO_FILE | FR_NO_PATH
  | FR_INVALID_NAME | FR_DENIED | FR_EXIST | FR_INVALID_OBJECT | FR_WRITE_PROTECTED
  | FR_INVALID_DRIVE | FR_NOT_ENABLED | FR_NO_FILESYSTEM | FR_MKFS_ABORTED | FR_TIMEOUT
  | FR_LOCKED | FR_NOT_ENOUGH_CORE | FR_TOO_MANY_OPEN_FILES | FR_INVALID_PARAMETER

text \<open>Pointers are addresses; \<open>nullptr\<close> is address 0.\<close>

type_synonym addr = nat

abbreviation nullptr :: addr where
  "nullptr \<equiv> 0"

record FIL =
  fil_fs :: addr
  fil_flag :: "8 word"
  fil_fptr :: "32 word"
  fil_objsize :: "32 word"

record DIR =
  dir_fs :: addr
  dir_sclust :: "32 word"
  dir_dptr :: "32 word"

record FILINFO =
  fsize :: "32 word"
  fdate :: "16 word"
  ftime :: "16 word"
  fattrib :: "8 word"
  fname :: string
  lfname :: string

text \<open>\<open>f_tell(fp)\<close> and \<open>f_size(fp)\<close> are the driver's accessor macros.\<close>

definition f_tell :: "FIL \<Rightarrow> 32 word" where
  "f_tell fp = fil_fptr fp"

definition f_size :: "FIL \<Rightarrow> 32 word" where
  "f_size fp = fil_objsize fp"

text \<open>
  The driver's functions are parameters of the model. Each takes the state of the mounted
  volume (of an arbitrary type \<open>'v\<close>) and the object it works on, and returns the new
  volume state, its result code and the object as it leaves it.
\<close>

record 'v driver =
  f_stat :: "'v \<Rightarrow> string \<Rightarrow> 'v \<times> FRESULT \<times> FILINFO"
  f_open :: "'v \<Rightarrow> string \<Rightarrow> 8 word \<Rightarrow> 'v \<times> FRESULT \<times> FIL"
  f_opendir :: "'v \<Rightarrow> string \<Rightarrow> 'v \<times> FRESULT \<times> DIR"
  f_sync :: "'v \<Rightarrow> FIL \<Rightarrow> 'v \<times> FRESULT \<times> FIL"
  f_close :: "'v \<Rightarrow> FIL \<Rightarrow> 'v \<times> FRESULT \<times> FIL"
  f_closedir :: "'v \<Rightarrow> DIR \<Rightarrow> 'v \<times> FRESULT \<times> DIR"
  f_readdir :: "'v \<Rightarrow> DIR \<Rightarrow> 'v \<times> FRESULT \<times> DIR \<times> FILINFO"
  f_read :: "'v \<Rightarrow> FIL \<Rightarrow> nat \<Rightarrow> 'v \<times> FRESULT \<times> FIL \<times> 8 word list"
  f_lseek :: "'v \<Rightarrow> FIL \<Rightarrow> 32 word \<Rightarrow> 'v \<times> FRESULT \<times> FIL"

text \<open>
  The constants and macros that \<open>SD.cpp\<close> takes from headers outside the two source
  files are parameters as well. \<open>lfn_split\<close> is the preprocessor condition
  \<open>_USE_LFN && _FATFS != 68300\<close>.
\<close>

record config =
  FA_READ :: "8 word"
  FA_CREATE_ALWAYS :: "8 word"
  FILE_WRITE :: "8 word"
  AM_DIR :: "8 word"
  sizeof_FIL :: nat
  lfn_split :: bool
  FAT_YEAR :: "16 word \<Rightarrow> 16 word"
  FAT_MONTH :: "16 word \<Rightarrow> 8 word"
  FAT_DAY :: "16 word \<Rightarrow> 8 word"
  FAT_HOUR :: "16 word \<Rightarrow> 8 word"
  FAT_MINUTE :: "16 word \<Rightarrow> 8 word"
  FAT_SECOND :: "16 word \<Rightarrow> 8 word"

section \<open>The heap\<close>

text \<open>
  \<open>malloc\<close> and \<open>free\<close> work on an explicit store of blocks. A block has a size and
  a content; \<open>malloc\<close> hands out a fresh address while enough bytes are available and
  \<open>nullptr\<close> otherwise; \<open>free\<close> of \<open>nullptr\<close> does nothing, \<open>free\<close> of an address that
  holds no block is a fault, and so is reading through such an address.
\<close>

datatype obj = Raw | Chars string | FilObj FIL

record heap =
  objs :: "addr \<rightharpoonup> nat \<times> obj"
  brk :: addr
  avail :: nat

datatype stop = Halted | MemFault | Diverged | OutOfFuel

definition malloc :: "heap \<Rightarrow> nat \<Rightarrow> heap \<times> addr" where
  "malloc hp n =
     (if n \<le> avail hp
      then (hp\<lparr>objs := (objs hp)(brk hp \<mapsto> (n, Raw)), brk := Suc (brk hp),
                avail := avail hp - n\<rparr>, brk hp)
      else (hp, nullptr))"

definition free :: "heap \<Rightarrow> addr \<Rightarrow> stop + heap" where
  "free hp p =
     (if p = nullptr then Inr hp
      else case objs hp p of
             None \<Rightarrow> Inl MemFault
           | Some (n, x) \<Rightarrow> Inr (hp\<lparr>objs := (objs hp)(p := None), avail := avail hp + n\<rparr>))"

definition poke :: "heap \<Rightarrow> addr \<Rightarrow> obj \<Rightarrow> heap" where
  "poke hp p x = hp\<lparr>objs := (objs hp)(p := map_option (\<lambda>(n, y). (n, x)) (objs hp p))\<rparr>"

definition load_FIL :: "heap \<Rightarrow> addr \<Rightarrow> stop + FIL" where
  "load_FIL hp p =
     (case objs hp p of Some (n, FilObj fil) \<Rightarrow> Inr fil | _ \<Rightarrow> Inl MemFault)"

definition load_str :: "heap \<Rightarrow> addr \<Rightarrow> stop + string" where
  "load_str hp p =
     (case objs hp p of Some (n, Chars s) \<Rightarrow> Inr s | _ \<Rightarrow> Inl MemFault)"

text \<open>Addresses from \<open>brk\<close> on are unused, and nothing lives at \<open>nullptr\<close>.\<close>

definition heap_ok :: "heap \<Rightarrow> bool" where
  "heap_ok hp \<longleftrightarrow> 0 < brk hp \<and> (\<forall>p. objs hp p \<noteq> None \<longrightarrow> 0 < p \<and> p < brk hp)"

section \<open>The File handle and the SD facade\<close>

record File =
  m_name :: addr
  m_fil :: addr
  m_dir :: DIR
  m_res :: FRESULT

text \<open>What a \<open>Print\<close> sink receives: one entry for each call made on it.\<close>

datatype out = PrintChar char | PrintStr string | PrintNum nat | Println | PrintlnStr string

record 'v world =
  vol :: 'v
  heap :: heap
  sink :: "out list"

text \<open>\<open>DIR _dir = {}\<close>: all members zero.\<close>

definition DIR_zero :: DIR where
  "DIR_zero = \<lparr>dir_fs = 0, dir_sclust = 0, dir_dptr = 0\<rparr>"

text \<open>\<open>File::File(FRESULT result)\<close>, with the default member initialisers of the class.\<close>

definition File_ctor :: "FRESULT \<Rightarrow> File" where
  "File_ctor result = \<lparr>m_name = nullptr, m_fil = nullptr, m_dir = DIR_zero, m_res = result\<rparr>"

text \<open>
  \<open>File::operator bool\<close>. The operators \<open>||\<close> and \<open>&&\<close> evaluate from the left and stop
  early, so \<open>_fil->fs\<close> is read only when \<open>_name\<close> and \<open>_fil\<close> are not null.
\<close>

definition File_bool :: "heap \<Rightarrow> File \<Rightarrow> stop + bool" where
  "File_bool hp f =
     (if m_name f = nullptr then Inr False
      else if m_fil f = nullptr \<and> dir_fs (m_dir f) = 0 then Inr False
      else if m_fil f \<noteq> nullptr then
        (case load_FIL hp (m_fil f) of
           Inl e \<Rightarrow> Inl e
         | Inr fil \<Rightarrow> Inr (\<not> (fil_fs fil = 0 \<and> dir_fs (m_dir f) = 0)))
      else Inr True)"

text \<open>\<open>SDClass::exists\<close>.\<close>

definition SD_exists :: "'v driver \<Rightarrow> 'v \<Rightarrow> string \<Rightarrow> 'v \<times> bool" where
  "SD_exists drv v filepath =
     (case f_stat drv v filepath of (v', r, fno) \<Rightarrow> (v', if r \<noteq> FR_OK then False else True))"

text \<open>
  Lines 151 to 153 of \<open>SDClass::open\<close>: the mode handed to \<open>f_open\<close>. \<open>SD.exists\<close> is
  called only when \<open>mode == FILE_WRITE\<close>.
\<close>

definition open_mode :: "config \<Rightarrow> 'v driver \<Rightarrow> 'v \<Rightarrow> string \<Rightarrow> 8 word \<Rightarrow> 'v \<times> 8 word" where
  "open_mode cfg drv v filepath mode =
     (if mode = FILE_WRITE cfg then
        (case SD_exists drv v filepath of
           (v', ex) \<Rightarrow> (v', if \<not> ex then mode OR FA_CREATE_ALWAYS cfg else mode))
      else (v, mode))"

text \<open>
  \<open>SDClass::open\<close>. \<open>Error_Handler()\<close> does not return: the run stops as \<open>Halted\<close>.
  The block of \<open>_fil\<close> holds nothing but \<open>fs = 0\<close> until \<open>f_open\<close> fills it, and nothing
  reads it in between: it stays \<open>Raw\<close> until the object that \<open>f_open\<close> returns is stored
  in it, and it is freed before \<open>f_opendir\<close> is tried when \<open>f_open\<close> fails.
\<close>

definition SD_open ::
  "config \<Rightarrow> 'v driver \<Rightarrow> 'v world \<Rightarrow> string \<Rightarrow> 8 word \<Rightarrow> stop + 'v world \<times> File" where
  "SD_open cfg drv w filepath mode =
     (case malloc (heap w) (length filepath + 1) of
        (hp1, np) \<Rightarrow>
          if np = nullptr then Inl Halted
          else
            (case malloc (poke hp1 np (Chars filepath)) (sizeof_FIL cfg) of
               (hp2, fp) \<Rightarrow>
                 if fp = nullptr then Inl Halted
                 else
                   (let file = (File_ctor FR_OK)
                          \<lparr>m_name := np, m_fil := fp, m_dir := DIR_zero\<lparr>dir_fs := 0\<rparr>\<rparr>
                    in case open_mode cfg drv (vol w) filepath mode of
                         (v1, mode') \<Rightarrow>
                           (case f_open drv v1 filepath mode' of
                              (v2, r, fil) \<Rightarrow>
                                if r \<noteq> FR_OK then
                                  (case free hp2 fp of
                                     Inl e \<Rightarrow> Inl e
                                   | Inr hp3 \<Rightarrow>
                                       (case f_opendir drv v2 filepath of
                                          (v3, r', d) \<Rightarrow>
                                            if r' \<noteq> FR_OK then
                                              (case free hp3 np of
                                                 Inl e \<Rightarrow> Inl e
                                               | Inr hp4 \<Rightarrow>
                                                   Inr (w\<lparr>vol := v3, heap := hp4\<rparr>,
                                                        file\<lparr>m_fil := nullptr, m_dir := d,
                                                             m_res := r', m_name := nullptr\<rparr>))
                                            else
                                              Inr (w\<lparr>vol := v3, heap := hp3\<rparr>,
                                                   file\<lparr>m_fil := nullptr, m_dir := d,
                                                        m_res := r'\<rparr>)))
                                else
                                  Inr (w\<lparr>vol := v2, heap := poke hp2 fp (FilObj fil)\<rparr>,
                                       file\<lparr>m_res := r\<rparr>)))))"

text \<open>
  \<open>File::close\<close>, in the two steps of its body: the file part (lines 383 to 397) and
  the directory part with the release of the name (lines 399 to 408). The results of
  \<open>f_sync\<close>, \<open>f_close\<close> and \<open>f_closedir\<close> are not looked at.
\<close>

definition close_fil :: "'v driver \<Rightarrow> 'v world \<Rightarrow> File \<Rightarrow> stop + 'v world \<times> File" where
  "close_fil drv w f =
     (if m_fil f \<noteq> nullptr then
        (case load_FIL (heap w) (m_fil f) of
           Inl e \<Rightarrow> Inl e
         | Inr fil \<Rightarrow>
             (case (if fil_fs fil \<noteq> 0 then
                      (case f_sync drv (vol w) fil of
                         (v1, r1, fil1) \<Rightarrow>
                           (case f_close drv v1 fil1 of
                              (v2, r2, fil2) \<Rightarrow> (v2, fil2)))
                    else (vol w, fil)) of
                (v2, fil2) \<Rightarrow>
                  (case free (poke (heap w) (m_fil f) (FilObj fil2)) (m_fil f) of
                     Inl e \<Rightarrow> Inl e
                   | Inr hp \<Rightarrow> Inr (w\<lparr>vol := v2, heap := hp\<rparr>, f\<lparr>m_fil := nullptr\<rparr>))))
      else Inr (w, f))"

definition close_dir :: "'v driver \<Rightarrow> 'v world \<Rightarrow> File \<Rightarrow> stop + 'v world \<times> File" where
  "close_dir drv w f =
     (case (if dir_fs (m_dir f) \<noteq> 0 then
              (case f_closedir drv (vol w) (m_dir f) of
                 (v, r, d) \<Rightarrow> (w\<lparr>vol := v\<rparr>, f\<lparr>m_dir := d\<rparr>))
            else (w, f)) of
        (w1, f1) \<Rightarrow>
          (case free (heap w1) (m_name f1) of
             Inl e \<Rightarrow> Inl e
           | Inr hp \<Rightarrow> Inr (w1\<lparr>heap := hp\<rparr>, f1\<lparr>m_name := nullptr\<rparr>)))"

definition close :: "'v driver \<Rightarrow> 'v world \<Rightarrow> File \<Rightarrow> stop + 'v world \<times> File" where
  "close drv w f =
     (if m_name f \<noteq> nullptr then
        (case close_fil drv w f of
           Inl e \<Rightarrow> Inl e
         | Inr (w1, f1) \<Rightarrow> close_dir drv w1 f1)
      else Inr (w, f))"


section \<open>Reading and positioning\<close>

text \<open>\<open>File::size\<close> and \<open>File::position\<close>: both read through \<open>_fil\<close>.\<close>

definition size_f :: "heap \<Rightarrow> File \<Rightarrow> stop + 32 word" where
  "size_f hp f = (case load_FIL hp (m_fil f) of Inl e \<Rightarrow> Inl e | Inr fil \<Rightarrow> Inr (f_size fil))"

definition position :: "heap \<Rightarrow> File \<Rightarrow> stop + 32 word" where
  "position hp f = (case load_FIL hp (m_fil f) of Inl e \<Rightarrow> Inl e | Inr fil \<Rightarrow> Inr (f_tell fil))"

text \<open>\<open>File::seek\<close>.\<close>

definition seek :: "'v driver \<Rightarrow> 'v world \<Rightarrow> File \<Rightarrow> 32 word \<Rightarrow> stop + 'v world \<times> bool" where
  "seek drv w f pos =
     (case size_f (heap w) f of
        Inl e \<Rightarrow> Inl e
      | Inr sz \<Rightarrow>
          if pos > sz then Inr (w, False)
          else
            (case load_FIL (heap w) (m_fil f) of
               Inl e \<Rightarrow> Inl e
             | Inr fil \<Rightarrow>
                 (case f_lseek drv (vol w) fil pos of
                    (v, r, fil') \<Rightarrow>
                      Inr (w\<lparr>vol := v, heap := poke (heap w) (m_fil f) (FilObj fil')\<rparr>,
                           if r \<noteq> FR_OK then False else True))))"

text \<open>
  \<open>File::read()\<close>. The local \<open>int8_t data\<close> is not initialised: \<open>junk\<close> is what it
  holds before \<open>f_read\<close> stores the bytes it has read. The value returned is the
  \<open>int8_t\<close> converted to \<open>int\<close>.
\<close>

definition read :: "'v driver \<Rightarrow> 'v world \<Rightarrow> File \<Rightarrow> 8 word \<Rightarrow> stop + 'v world \<times> int" where
  "read drv w f junk =
     (case load_FIL (heap w) (m_fil f) of
        Inl e \<Rightarrow> Inl e
      | Inr fil \<Rightarrow>
          (case f_read drv (vol w) fil 1 of
             (v, r, fil', bytes) \<Rightarrow>
               (let data = (case bytes of [] \<Rightarrow> junk | b # bs \<Rightarrow> b)
                in Inr (w\<lparr>vol := v, heap := poke (heap w) (m_fil f) (FilObj fil')\<rparr>,
                        if r = FR_OK then sint data else - 1))))"

text \<open>
  \<open>File::read(void *buf, size_t len)\<close>: the bytes stored in \<open>buf\<close> are returned beside
  the result; \<open>bytesread\<close> is a 32-bit \<open>UINT\<close> converted to \<open>int\<close>.
\<close>

definition read_buf ::
  "'v driver \<Rightarrow> 'v world \<Rightarrow> File \<Rightarrow> nat \<Rightarrow> stop + 'v world \<times> int \<times> 8 word list" where
  "read_buf drv w f len =
     (case load_FIL (heap w) (m_fil f) of
        Inl e \<Rightarrow> Inl e
      | Inr fil \<Rightarrow>
          (case f_read drv (vol w) fil len of
             (v, r, fil', bytes) \<Rightarrow>
               (let bytesread = (of_nat (length bytes) :: 32 word)
                in Inr (w\<lparr>vol := v, heap := poke (heap w) (m_fil f) (FilObj fil')\<rparr>,
                        if r = FR_OK then sint bytesread else - 1, bytes))))"

text \<open>\<open>File::available\<close>: the subtraction is on \<open>uint32_t\<close>.\<close>

definition available :: "heap \<Rightarrow> File \<Rightarrow> stop + int" where
  "available hp f =
     (case size_f hp f of
        Inl e \<Rightarrow> Inl e
      | Inr sz \<Rightarrow>
          (case position hp f of
             Inl e \<Rightarrow> Inl e
           | Inr pos \<Rightarrow>
               (let n = sz - pos in Inr (sint (if n > 0x7FFF then 0x7FFF else n)))))"

section \<open>Names and paths\<close>

text \<open>
  \<open>strrchr\<close> of the C library: the offset of the last occurrence of the character, or
  \<open>None\<close> for the null pointer it returns when there is none.
\<close>

fun strrchr_from :: "string \<Rightarrow> char \<Rightarrow> nat \<Rightarrow> nat option \<Rightarrow> nat option" where
  "strrchr_from [] c i found = found"
| "strrchr_from (x # xs) c i found = strrchr_from xs c (Suc i) (if x = c then Some i else found)"

definition strrchr :: "string \<Rightarrow> char \<Rightarrow> nat option" where
  "strrchr s c = strrchr_from s c 0 None"

text \<open>
  \<open>File::name\<close>. The pointer returned is \<open>None\<close> when null, and otherwise the string it
  points to inside the buffer of \<open>_name\<close>.
\<close>

definition name :: "heap \<Rightarrow> File \<Rightarrow> stop + string option" where
  "name hp f =
     (case load_str hp (m_name f) of
        Inl e \<Rightarrow> Inl e
      | Inr s \<Rightarrow>
          (case strrchr s CHR ''/'' of
             None \<Rightarrow> Inr None
           | Some i \<Rightarrow>
               (case drop i s of
                  [] \<Rightarrow> Inr (Some [])
                | c # cs \<Rightarrow> if c = CHR ''/'' then Inr (Some (drop (Suc i) s))
                            else Inr (Some (drop i s)))))"

text \<open>The name of an entry: \<open>*fno.lfname ? fno.lfname : fno.fname\<close>, or \<open>fno.fname\<close>.\<close>

definition entry_name :: "config \<Rightarrow> FILINFO \<Rightarrow> string" where
  "entry_name cfg fno =
     (if lfn_split cfg then (if lfname fno \<noteq> [] then lfname fno else fname fno)
      else fname fno)"

text \<open>
  \<open>File::openNextFile\<close>. The loop \<open>while (1)\<close> has no bound of its own: the first
  argument is the number of iterations allowed, and running out of them is \<open>OutOfFuel\<close>.
  The result holds the handle itself (its \<open>_dir\<close> has advanced) and the handle returned.
\<close>

fun openNextFile ::
  "nat \<Rightarrow> config \<Rightarrow> 'v driver \<Rightarrow> 'v world \<Rightarrow> File \<Rightarrow> 8 word \<Rightarrow> stop + 'v world \<times> File \<times> File" where
  "openNextFile 0 cfg drv w f mode = Inl OutOfFuel"
| "openNextFile (Suc n) cfg drv w f mode =
     (case f_readdir drv (vol w) (m_dir f) of
        (v1, res, d1, fno) \<Rightarrow>
          if res \<noteq> FR_OK then Inr (w\<lparr>vol := v1\<rparr>, f\<lparr>m_dir := d1\<rparr>, File_ctor res)
          else
            (case fname fno of
               [] \<Rightarrow> Inr (w\<lparr>vol := v1\<rparr>, f\<lparr>m_dir := d1\<rparr>, File_ctor res)
             | c # cs \<Rightarrow>
                 if c = CHR ''.'' then openNextFile n cfg drv (w\<lparr>vol := v1\<rparr>) (f\<lparr>m_dir := d1\<rparr>) mode
                 else
                   (case load_str (heap w) (m_name f) of
                      Inl e \<Rightarrow> Inl e
                    | Inr dirPath \<Rightarrow>
                        (let fn = entry_name cfg fno; name_len = length dirPath
                         in case malloc (heap w) (name_len + length fn + 2) of
                              (hp2, fullPath) \<Rightarrow>
                                if fullPath \<noteq> nullptr then
                                  (let path = (if name_len > 0 \<and> last dirPath = CHR ''/''
                                               then dirPath @ fn else dirPath @ ''/'' @ fn)
                                   in case SD_open cfg drv
                                             (w\<lparr>vol := v1, heap := poke hp2 fullPath (Chars path)\<rparr>)
                                             path mode of
                                        Inl e \<Rightarrow> Inl e
                                      | Inr (w3, filtmp) \<Rightarrow>
                                          (case free (heap w3) fullPath of
                                             Inl e \<Rightarrow> Inl e
                                           | Inr hp4 \<Rightarrow>
                                               Inr (w3\<lparr>heap := hp4\<rparr>, f\<lparr>m_dir := d1\<rparr>, filtmp)))
                                else
                                  Inr (w\<lparr>vol := v1\<rparr>, f\<lparr>m_dir := d1\<rparr>,
                                       File_ctor FR_NOT_ENOUGH_CORE)))))"

section \<open>Listing\<close>

definition LS_DATE :: "8 word" where "LS_DATE = 1"
definition LS_SIZE :: "8 word" where "LS_SIZE = 2"
definition LS_R :: "8 word" where "LS_R = 4"

text \<open>\<open>File::printTwoDigits\<close>, \<open>File::printFatDate\<close>, \<open>File::printFatTime\<close>.\<close>

definition printTwoDigits :: "8 word \<Rightarrow> out list" where
  "printTwoDigits v = [PrintStr [char_of (48 + unat v div 10), char_of (48 + unat v mod 10)]]"

definition printFatDate :: "config \<Rightarrow> 16 word \<Rightarrow> out list" where
  "printFatDate cfg fatDate =
     [PrintNum (unat (FAT_YEAR cfg fatDate)), PrintChar CHR ''-'']
     @ printTwoDigits (FAT_MONTH cfg fatDate) @ [PrintChar CHR ''-'']
     @ printTwoDigits (FAT_DAY cfg fatDate)"

definition printFatTime :: "config \<Rightarrow> 16 word \<Rightarrow> out list" where
  "printFatTime cfg fatTime =
     printTwoDigits (FAT_HOUR cfg fatTime) @ [PrintChar CHR '':'']
     @ printTwoDigits (FAT_MINUTE cfg fatTime) @ [PrintChar CHR '':'']
     @ printTwoDigits (FAT_SECOND cfg fatTime)"

text \<open>
  The loop \<open>for (int8_t i = 0; i < indent; i++)\<close> of \<open>File::ls\<close>. The counter is an
  \<open>int8_t\<close> and \<open>indent\<close> a \<open>uint8_t\<close>: for \<open>indent\<close> above 127 the counter goes from
  127 to -128 and the loop never ends.
\<close>

definition print_indent :: "8 word \<Rightarrow> stop + out list" where
  "print_indent indent =
     (if unat indent \<le> 127 then Inr (replicate (unat indent) (PrintChar CHR '' ''))
      else Inl Diverged)"

text \<open>What \<open>File::ls\<close> prints after the name of an entry that is not a directory.\<close>

definition ls_leaf :: "config \<Rightarrow> 8 word \<Rightarrow> FILINFO \<Rightarrow> out list" where
  "ls_leaf cfg flags fno =
     (if flags AND LS_DATE \<noteq> 0
      then [PrintChar CHR '' ''] @ printFatDate cfg (fdate fno)
           @ [PrintChar CHR '' ''] @ printFatTime cfg (ftime fno)
      else [])
     @ (if flags AND LS_SIZE \<noteq> 0 then [PrintChar CHR '' '', PrintNum (unat (fsize fno))] else [])
     @ [Println]"

text \<open>
  \<open>File::ls\<close>, with the number of loop iterations and nested calls allowed as its first
  argument. It returns the world and the handle, whose \<open>_dir\<close> has advanced.
\<close>

fun ls ::
  "nat \<Rightarrow> config \<Rightarrow> 'v driver \<Rightarrow> 'v world \<Rightarrow> 8 word \<Rightarrow> 8 word \<Rightarrow> File \<Rightarrow> stop + 'v world \<times> File" where
  "ls 0 cfg drv w flags indent f = Inl OutOfFuel"
| "ls (Suc n) cfg drv w flags indent f =
     (case f_readdir drv (vol w) (m_dir f) of
        (v1, res, d1, fno) \<Rightarrow>
          if res \<noteq> FR_OK then Inr (w\<lparr>vol := v1\<rparr>, f\<lparr>m_dir := d1\<rparr>)
          else
            (case fname fno of
               [] \<Rightarrow> Inr (w\<lparr>vol := v1\<rparr>, f\<lparr>m_dir := d1\<rparr>)
             | c # cs \<Rightarrow>
                 if c = CHR ''.'' then ls n cfg drv (w\<lparr>vol := v1\<rparr>) flags indent (f\<lparr>m_dir := d1\<rparr>)
                 else
                   (case print_indent indent of
                      Inl e \<Rightarrow> Inl e
                    | Inr spaces \<Rightarrow>
                        (let fn = entry_name cfg fno;
                             w2 = w\<lparr>vol := v1, sink := sink w @ spaces @ [PrintStr fn]\<rparr>
                         in if fattrib fno AND AM_DIR cfg = 0 then
                              ls n cfg drv (w2\<lparr>sink := sink w2 @ ls_leaf cfg flags fno\<rparr>)
                                 flags indent (f\<lparr>m_dir := d1\<rparr>)
                            else if flags AND LS_R \<noteq> 0 then
                              (case load_str (heap w2) (m_name f) of
                                 Inl e \<Rightarrow> Inl e
                               | Inr dirPath \<Rightarrow>
                                   (case malloc (heap w2) (length dirPath + 1 + length fn + 1) of
                                      (hp3, fullPath) \<Rightarrow>
                                        if fullPath \<noteq> nullptr then
                                          (let path = dirPath @ ''/'' @ fn
                                           in case SD_open cfg drv
                                                     (w2\<lparr>heap := poke hp3 fullPath (Chars path)\<rparr>)
                                                     path (FA_READ cfg) of
                                                Inl e \<Rightarrow> Inl e
                                              | Inr (w4, filtmp) \<Rightarrow>
                                                  (case File_bool (heap w4) filtmp of
                                                     Inl e \<Rightarrow> Inl e
                                                   | Inr ok \<Rightarrow>
                                                       (case (if ok then
                                                                (case ls n cfg drv
                                                                        (w4\<lparr>sink := sink w4 @ [Println]\<rparr>)
                                                                        flags (indent + 2) filtmp of
                                                                   Inl e \<Rightarrow> Inl e
                                                                 | Inr (w5, filtmp') \<Rightarrow>
                                                                     (case close drv w5 filtmp' of
                                                                        Inl e \<Rightarrow> Inl e
                                                                      | Inr (w6, filtmp'') \<Rightarrow> Inr w6))
                                                              else
                                                                Inr (w4\<lparr>sink := sink w4 @
                                                                       [PrintlnStr fn,
                                                                        PrintStr ''Error to open dir: '',
                                                                        PrintlnStr fn]\<rparr>)) of
                                                          Inl e \<Rightarrow> Inl e
                                                        | Inr w7 \<Rightarrow>
                                                            (case free (heap w7) fullPath of
                                                               Inl e \<Rightarrow> Inl e
                                                             | Inr hp8 \<Rightarrow>
                                                                 ls n cfg drv (w7\<lparr>heap := hp8\<rparr>)
                                                                    flags indent (f\<lparr>m_dir := d1\<rparr>)))))
                                        else
                                          ls n cfg drv
                                             (w2\<lparr>sink := sink w2 @
                                                  [Println, PrintStr ''Error to allocate memory!'']\<rparr>)
                                             flags indent (f\<lparr>m_dir := d1\<rparr>)))
                            else ls n cfg drv w2 flags indent (f\<lparr>m_dir := d1\<rparr>)))))"

section \<open>The states of a handle, and what is assumed of the driver\<close>

text \<open>
  FatFs marks a \<open>FIL\<close> or \<open>DIR\<close> object as valid by a non-null \<open>fs\<close> member: \<open>f_open\<close>
  and \<open>f_opendir\<close> set it when they return \<open>FR_OK\<close> and clear it on every failure.
  \<open>File::operator bool\<close> and \<open>File::close\<close> read the member for this. The theorems on
  \<open>open\<close> and \<open>ls\<close> are about drivers that keep this rule.
\<close>

definition native_objects_ok :: "'v driver \<Rightarrow> bool" where
  "native_objects_ok drv \<longleftrightarrow>
     (\<forall>v p m. (fst (snd (f_open drv v p m)) = FR_OK) = (fil_fs (snd (snd (f_open drv v p m))) \<noteq> 0)) \<and>
     (\<forall>v p. (fst (snd (f_opendir drv v p)) = FR_OK) = (dir_fs (snd (snd (f_opendir drv v p))) \<noteq> 0))"

text \<open>
  \<open>f_lseek\<close> moving the file pointer to the offset it is given, when that offset lies
  within the file and it returns \<open>FR_OK\<close>.
\<close>

definition lseek_relocates :: "'v driver \<Rightarrow> bool" where
  "lseek_relocates drv \<longleftrightarrow>
     (\<forall>v fil pos. pos \<le> f_size fil \<and> fst (snd (f_lseek drv v fil pos)) = FR_OK \<longrightarrow>
        f_tell (snd (snd (f_lseek drv v fil pos))) = pos)"

text \<open>
  The states of the data model: the path is bound when \<open>_name\<close> points to a string; the
  file state is live when \<open>_fil\<close> points to a \<open>FIL\<close> object with a non-null \<open>fs\<close>; the
  directory state is live when \<open>_dir.fs\<close> is non-null.
\<close>

definition path_bound :: "heap \<Rightarrow> File \<Rightarrow> bool" where
  "path_bound hp f \<longleftrightarrow> m_name f \<noteq> nullptr \<and> \<not> isl (load_str hp (m_name f))"

definition file_live :: "heap \<Rightarrow> File \<Rightarrow> bool" where
  "file_live hp f \<longleftrightarrow>
     m_fil f \<noteq> nullptr \<and> (case load_FIL hp (m_fil f) of Inl e \<Rightarrow> False | Inr fil \<Rightarrow> fil_fs fil \<noteq> 0)"

definition dir_live :: "File \<Rightarrow> bool" where
  "dir_live f \<longleftrightarrow> dir_fs (m_dir f) \<noteq> 0"

definition file_bound :: "heap \<Rightarrow> File \<Rightarrow> bool" where
  "file_bound hp f \<longleftrightarrow> path_bound hp f \<and> file_live hp f \<and> \<not> dir_live f"

definition dir_bound :: "heap \<Rightarrow> File \<Rightarrow> bool" where
  "dir_bound hp f \<longleftrightarrow> path_bound hp f \<and> m_fil f = nullptr \<and> dir_live f"

definition fully_empty :: "File \<Rightarrow> bool" where
  "fully_empty f \<longleftrightarrow> m_name f = nullptr \<and> m_fil f = nullptr \<and> \<not> dir_live f"

definition half_bound :: "heap \<Rightarrow> File \<Rightarrow> bool" where
  "half_bound hp f \<longleftrightarrow> m_name f \<noteq> nullptr \<and> \<not> file_live hp f \<and> \<not> dir_live f"

text \<open>
  The invariant of the data model, with the file state bound when \<open>_fil\<close> is not null
  and the directory state bound when \<open>_dir.fs\<close> is not null: not both are bound, and the
  path is unbound if and only if both are unbound.
\<close>

definition handle_inv :: "File \<Rightarrow> bool" where
  "handle_inv f \<longleftrightarrow>
     \<not> (m_fil f \<noteq> nullptr \<and> dir_live f) \<and>
     (m_name f = nullptr \<longleftrightarrow> m_fil f = nullptr \<and> \<not> dir_live f)"

text \<open>
  A handle owns its blocks when its \<open>_name\<close>, if not null, points to a string in the heap
  and its \<open>_fil\<close>, if not null, to a \<open>FIL\<close> object in the heap. A copy of a handle that
  has been closed does not.
\<close>

definition owns :: "heap \<Rightarrow> File \<Rightarrow> bool" where
  "owns hp f \<longleftrightarrow>
     (m_name f \<noteq> nullptr \<longrightarrow>
        \<not> isl (load_str hp (m_name f)) \<and>
        (m_fil f \<noteq> nullptr \<longrightarrow> \<not> isl (load_FIL hp (m_fil f))))"

text \<open>
  Two heaps holding the same blocks and the same number of free bytes; the second may
  have handed out more addresses.
\<close>

definition same_blocks :: "heap \<Rightarrow> heap \<Rightarrow> bool" where
  "same_blocks hp hp' \<longleftrightarrow> objs hp' = objs hp \<and> avail hp' = avail hp \<and> brk hp \<le> brk hp'"

text \<open>
  The write-access bit of a FatFs mode (\<open>FA_WRITE\<close>): a mode carries write intent when
  the bit is set.
\<close>

definition FA_WRITE :: "8 word" where
  "FA_WRITE = 0x02"

text \<open>
  The child path in the words of the specification: the directory path and the entry
  name with a separator between them, and no second separator when the directory path
  ends in one.
\<close>

definition join_path :: "string \<Rightarrow> string \<Rightarrow> string" where
  "join_path dirPath entryName =
     (if dirPath \<noteq> [] \<and> last dirPath = CHR ''/'' then dirPath @ entryName
      else dirPath @ ''/'' @ entryName)"

text \<open>
  The next entry that is not a dot entry: the first result of the native iterator that
  is not an \<open>FR_OK\<close> with a short name (\<open>fname\<close>) beginning with \<open>'.'\<close>; \<open>None\<close> when
  the given number of reads does not reach one.
\<close>

fun next_entry ::
  "nat \<Rightarrow> 'v driver \<Rightarrow> 'v \<Rightarrow> DIR \<Rightarrow> ('v \<times> FRESULT \<times> DIR \<times> FILINFO) option" where
  "next_entry 0 drv v d = None"
| "next_entry (Suc n) drv v d =
     (case f_readdir drv v d of
        (v1, res, d1, fno) \<Rightarrow>
          if res = FR_OK \<and> take 1 (fname fno) = ''.'' then next_entry n drv v1 d1
          else Some (v1, res, d1, fno))"

section \<open>A card to run the model on\<close>

text \<open>
  The values of the constants as in the FatFs and \<open>SdFatFs\<close> headers (\<open>FILE_WRITE\<close> is
  \<open>FA_WRITE\<close>), with the configuration \<open>_FATFS == 68300\<close>.
\<close>

definition stm32_cfg :: config where
  "stm32_cfg =
     \<lparr>FA_READ = 0x01, FA_CREATE_ALWAYS = 0x08, FILE_WRITE = 0x02, AM_DIR = 0x10,
      sizeof_FIL = 40, lfn_split = False,
      FAT_YEAR = (\<lambda>d. 1980 + drop_bit 9 d),
      FAT_MONTH = (\<lambda>d. ucast (drop_bit 5 d AND 0x0F)),
      FAT_DAY = (\<lambda>d. ucast (d AND 0x1F)),
      FAT_HOUR = (\<lambda>t. ucast (drop_bit 11 t)),
      FAT_MINUTE = (\<lambda>t. ucast (drop_bit 5 t AND 0x3F)),
      FAT_SECOND = (\<lambda>t. 2 * ucast (t AND 0x1F))\<rparr>"

text \<open>
  A small volume: the directory \<open>/r\<close> with the entries \<open>.cfg\<close>, \<open>sub\<close> (a directory
  holding the empty file \<open>n.txt\<close>), \<open>bad\<close> (a directory entry that cannot be opened) and
  \<open>f.txt\<close> (a file with the three bytes \<open>0x48 0x80 0xFF\<close>); a file \<open>/x\<close> can be created.
  A second directory \<open>/t\<close> holds the directory \<open>e\<close>, whose only entry is the empty
  directory \<open>g\<close>, and a directory entry \<open>bad\<close> that cannot be opened.
  The state of the volume is whether the card is present: with the card taken out, every
  function fails and leaves the object it was given as it is, as FatFs does when the
  validation of the object fails.
\<close>

definition FIL_zero :: FIL where
  "FIL_zero = \<lparr>fil_fs = 0, fil_flag = 0, fil_fptr = 0, fil_objsize = 0\<rparr>"

definition card_info :: "string \<Rightarrow> 8 word \<Rightarrow> 32 word \<Rightarrow> FILINFO" where
  "card_info nm attr sz =
     \<lparr>fsize = sz, fdate = 0x5B5E, ftime = 0x6C2A, fattrib = attr, fname = nm, lfname = []\<rparr>"

definition card_entries :: "32 word \<Rightarrow> FILINFO list" where
  "card_entries cl =
     (if cl = 1 then [card_info ''.cfg'' 0x20 7, card_info ''sub'' 0x10 0,
                      card_info ''bad'' 0x10 0, card_info ''f.txt'' 0x20 3]
      else if cl = 2 then [card_info ''n.txt'' 0x20 0]
      else if cl = 3 then [card_info ''r'' 0x10 0]
      else if cl = 4 then [card_info ''e'' 0x10 0, card_info ''bad'' 0x10 0]
      else if cl = 5 then [card_info ''g'' 0x10 0]
      else [])"

definition card_bytes :: "8 word list" where
  "card_bytes = [0x48, 0x80, 0xFF]"

definition card_stat :: "bool \<Rightarrow> string \<Rightarrow> bool \<times> FRESULT \<times> FILINFO" where
  "card_stat v p =
     (if \<not> v then (v, FR_NOT_READY, card_info [] 0 0)
      else if p = ''/r'' \<or> p = ''/r/sub'' \<or> p = ''/r/bad'' then (v, FR_OK, card_info p 0x10 0)
      else if p = ''/t'' \<or> p = ''/t/e'' \<or> p = ''/t/e/g'' \<or> p = ''/t/bad'' then
        (v, FR_OK, card_info p 0x10 0)
      else if p = ''/r/f.txt'' then (v, FR_OK, card_info p 0x20 3)
      else if p = ''/r/sub/n.txt'' then (v, FR_OK, card_info p 0x20 0)
      else (v, FR_NO_FILE, card_info [] 0 0))"

definition card_open :: "bool \<Rightarrow> string \<Rightarrow> 8 word \<Rightarrow> bool \<times> FRESULT \<times> FIL" where
  "card_open v p m =
     (if \<not> v then (v, FR_NOT_READY, FIL_zero)
      else if p = ''/r/f.txt'' then
        (v, FR_OK, \<lparr>fil_fs = 1, fil_flag = m, fil_fptr = 0, fil_objsize = 3\<rparr>)
      else if p = ''/r/sub/n.txt'' \<or> (p = ''/x'' \<and> m AND 0x08 \<noteq> 0) then
        (v, FR_OK, \<lparr>fil_fs = 1, fil_flag = m, fil_fptr = 0, fil_objsize = 0\<rparr>)
      else (v, FR_NO_FILE, FIL_zero))"

definition card_opendir :: "bool \<Rightarrow> string \<Rightarrow> bool \<times> FRESULT \<times> DIR" where
  "card_opendir v p =
     (if \<not> v then (v, FR_NOT_READY, DIR_zero)
      else if p = ''/r'' then (v, FR_OK, \<lparr>dir_fs = 1, dir_sclust = 1, dir_dptr = 0\<rparr>)
      else if p = ''/r/sub'' then (v, FR_OK, \<lparr>dir_fs = 1, dir_sclust = 2, dir_dptr = 0\<rparr>)
      else if p = ''/'' then (v, FR_OK, \<lparr>dir_fs = 1, dir_sclust = 3, dir_dptr = 0\<rparr>)
      else if p = ''/t'' then (v, FR_OK, \<lparr>dir_fs = 1, dir_sclust = 4, dir_dptr = 0\<rparr>)
      else if p = ''/t/e'' then (v, FR_OK, \<lparr>dir_fs = 1, dir_sclust = 5, dir_dptr = 0\<rparr>)
      else if p = ''/t/e/g'' then (v, FR_OK, \<lparr>dir_fs = 1, dir_sclust = 6, dir_dptr = 0\<rparr>)
      else (v, FR_NO_PATH, DIR_zero))"

definition card_readdir :: "bool \<Rightarrow> DIR \<Rightarrow> bool \<times> FRESULT \<times> DIR \<times> FILINFO" where
  "card_readdir v d =
     (if v \<and> dir_fs d \<noteq> 0 then
        (case drop (unat (dir_dptr d)) (card_entries (dir_sclust d)) of
           [] \<Rightarrow> (v, FR_OK, d, card_info [] 0 0)
         | e # es \<Rightarrow> (v, FR_OK, d\<lparr>dir_dptr := dir_dptr d + 1\<rparr>, e))
      else (v, FR_INVALID_OBJECT, d, card_info [] 0 0))"

definition card_read :: "bool \<Rightarrow> FIL \<Rightarrow> nat \<Rightarrow> bool \<times> FRESULT \<times> FIL \<times> 8 word list" where
  "card_read v fil n =
     (if v \<and> fil_fs fil \<noteq> 0 then
        (let bytes = take n (drop (unat (fil_fptr fil)) (take (unat (fil_objsize fil)) card_bytes))
         in (v, FR_OK, fil\<lparr>fil_fptr := fil_fptr fil + of_nat (length bytes)\<rparr>, bytes))
      else (v, FR_INVALID_OBJECT, fil, []))"

definition card_lseek :: "bool \<Rightarrow> FIL \<Rightarrow> 32 word \<Rightarrow> bool \<times> FRESULT \<times> FIL" where
  "card_lseek v fil pos =
     (if v \<and> fil_fs fil \<noteq> 0 then
        (v, FR_OK, fil\<lparr>fil_fptr := (if pos > fil_objsize fil then fil_objsize fil else pos)\<rparr>)
      else (v, FR_INVALID_OBJECT, fil))"

definition card_drv :: "bool driver" where
  "card_drv =
     \<lparr>f_stat = card_stat, f_open = card_open, f_opendir = card_opendir,
      f_sync = (\<lambda>v fil. (v, if v \<and> fil_fs fil \<noteq> 0 then FR_OK else FR_INVALID_OBJECT, fil)),
      f_close = (\<lambda>v fil. if v \<and> fil_fs fil \<noteq> 0 then (v, FR_OK, fil\<lparr>fil_fs := 0\<rparr>)
                          else (v, FR_INVALID_OBJECT, fil)),
      f_closedir = (\<lambda>v d. if v \<and> dir_fs d \<noteq> 0 then (v, FR_OK, d\<lparr>dir_fs := 0\<rparr>)
                           else (v, FR_INVALID_OBJECT, d)),
      f_readdir = card_readdir, f_read = card_read, f_lseek = card_lseek\<rparr>"

text \<open>
  An empty heap of \<open>n\<close> bytes, and the state after \<open>SD.open("/r/f.txt")\<close> and after
  \<open>SD.open("/r")\<close> in a world with a heap of 1000 bytes (\<open>open_file_world\<close>,
  \<open>open_dir_world\<close>).
\<close>

definition heap_init :: "nat \<Rightarrow> heap" where
  "heap_init n = \<lparr>objs = Map.empty, brk = 1, avail = n\<rparr>"

definition world_init :: "nat \<Rightarrow> bool world" where
  "world_init n = \<lparr>vol = True, heap = heap_init n, sink = []\<rparr>"

definition file_world :: "bool world" where
  "file_world =
     \<lparr>vol = True,
      heap = \<lparr>objs = [1 \<mapsto> (length ''/r/f.txt'' + 1, Chars ''/r/f.txt''),
                     Suc 1 \<mapsto> (40, FilObj \<lparr>fil_fs = 1, fil_flag = 1, fil_fptr = 0, fil_objsize = 3\<rparr>)],
              brk = 3, avail = 951\<rparr>,
      sink = []\<rparr>"

definition file_handle :: File where
  "file_handle = \<lparr>m_name = 1, m_fil = Suc 1, m_dir = DIR_zero, m_res = FR_OK\<rparr>"

definition dir_world :: "bool world" where
  "dir_world =
     \<lparr>vol = True,
      heap = \<lparr>objs = [1 \<mapsto> (length ''/r'' + 1, Chars ''/r'')], brk = 3, avail = 997\<rparr>,
      sink = []\<rparr>"

definition dir_handle :: File where
  "dir_handle =
     \<lparr>m_name = 1, m_fil = nullptr, m_dir = \<lparr>dir_fs = 1, dir_sclust = 1, dir_dptr = 0\<rparr>,
      m_res = FR_OK\<rparr>"

text \<open>The state after \<open>SD.open("/r/f.txt")\<close> with the file pointer moved to \<open>k\<close>.\<close>

definition file_world_at :: "32 word \<Rightarrow> bool world" where
  "file_world_at k =
     file_world\<lparr>heap := poke (heap file_world) (m_fil file_handle)
        (FilObj \<lparr>fil_fs = 1, fil_flag = 1, fil_fptr = k, fil_objsize = 3\<rparr>)\<rparr>"

text \<open>
  The state after \<open>SD.open(p)\<close> for a directory \<open>p\<close> of the card, in a world with a heap
  of 1000 bytes, and the handle of the directory in cluster \<open>cl\<close> after \<open>k\<close> of its entries
  have been read.
\<close>

definition opened_world :: "string \<Rightarrow> bool world" where
  "opened_world p =
     \<lparr>vol = True,
      heap = \<lparr>objs = [1 \<mapsto> (length p + 1, Chars p)], brk = 3, avail = 1000 - (length p + 1)\<rparr>,
      sink = []\<rparr>"

definition opened_handle :: "32 word \<Rightarrow> 32 word \<Rightarrow> File" where
  "opened_handle cl k =
     \<lparr>m_name = 1, m_fil = nullptr, m_dir = \<lparr>dir_fs = 1, dir_sclust = cl, dir_dptr = k\<rparr>,
      m_res = FR_OK\<rparr>"

text \<open>
  A build with \<open>_USE_LFN\<close> and \<open>_FATFS != 68300\<close>, where \<open>FILINFO\<close> has the long name
  beside the short one, and a card for it: the directory \<open>/r\<close> holds one file, of the long
  name \<open>.hidden\<close> and the short name \<open>HIDDEN~1\<close>, which can be opened under its long
  name.
\<close>

definition lfn_cfg :: config where
  "lfn_cfg = stm32_cfg\<lparr>lfn_split := True\<rparr>"

definition lfn_info :: FILINFO where
  "lfn_info =
     \<lparr>fsize = 0, fdate = 0x5B5E, ftime = 0x6C2A, fattrib = 0x20, fname = ''HIDDEN~1'',
      lfname = ''.hidden''\<rparr>"

definition lfn_drv :: "bool driver" where
  "lfn_drv =
     card_drv
       \<lparr>f_open := (\<lambda>v p m. if v \<and> p = ''/r/.hidden'' then
                              (v, FR_OK, \<lparr>fil_fs = 1, fil_flag = m, fil_fptr = 0, fil_objsize = 0\<rparr>)
                            else card_open v p m),
        f_readdir := (\<lambda>v d. if v \<and> dir_fs d \<noteq> 0 \<and> dir_dptr d = 0 then
                               (v, FR_OK, d\<lparr>dir_dptr := 1\<rparr>, lfn_info)
                             else card_readdir v (d\<lparr>dir_sclust := 0\<rparr>))\<rparr>"

text \<open>
  The state after \<open>openNextFile\<close> has opened \<open>/r/.hidden\<close> from the handle of \<open>/r\<close>.
\<close>

definition hidden_world :: "bool world" where
  "hidden_world =
     \<lparr>vol = True,
      heap = \<lparr>objs = [1 \<mapsto> (length ''/r'' + 1, Chars ''/r''),
                     Suc 3 \<mapsto> (length ''/r/.hidden'' + 1, Chars ''/r/.hidden''),
                     Suc (Suc 3) \<mapsto>
                       (40, FilObj \<lparr>fil_fs = 1, fil_flag = 1, fil_fptr = 0, fil_objsize = 0\<rparr>)],
              brk = 6, avail = 946\<rparr>,
      sink = []\<rparr>"

definition hidden_handle :: File where
  "hidden_handle = \<lparr>m_name = Suc 3, m_fil = Suc (Suc 3), m_dir = DIR_zero, m_res = FR_OK\<rparr>"

section \<open>Opening\<close>

lemma heap_ok_fresh: "heap_ok hp \<Longrightarrow> brk hp \<le> p \<Longrightarrow> objs hp p = None"
  unfolding heap_ok_def by (metis not_le)

lemma heap_ok_brk: "heap_ok hp \<Longrightarrow> 0 < brk hp"
  by (simp add: heap_ok_def)

lemma fun_upd_fresh_None: "m p = None \<Longrightarrow> m(p := None) = m"
  by (rule ext) simp

lemma SD_open_halts:
  assumes "avail (heap w) < length filepath + 1 + sizeof_FIL cfg"
  shows "SD_open cfg drv w filepath mode = Inl Halted"
  using assms by (auto simp: SD_open_def malloc_def poke_def split: prod.splits)

lemma SD_open_file:
  assumes "heap_ok (heap w)" "length filepath + 1 + sizeof_FIL cfg \<le> avail (heap w)"
    and "open_mode cfg drv (vol w) filepath mode = (v1, m')"
    and "f_open drv v1 filepath m' = (v2, FR_OK, fil)"
  shows "SD_open cfg drv w filepath mode =
           Inr (w\<lparr>vol := v2,
                  heap := (heap w)\<lparr>objs := (objs (heap w))
                               (brk (heap w) \<mapsto> (length filepath + 1, Chars filepath),
                                Suc (brk (heap w)) \<mapsto> (sizeof_FIL cfg, FilObj fil)),
                             brk := Suc (Suc (brk (heap w))),
                             avail := avail (heap w) - (length filepath + 1) - sizeof_FIL cfg\<rparr>\<rparr>,
                \<lparr>m_name = brk (heap w), m_fil = Suc (brk (heap w)), m_dir = DIR_zero, m_res = FR_OK\<rparr>)"
  using assms heap_ok_brk[OF assms(1)]
  by (simp add: SD_open_def malloc_def poke_def File_ctor_def DIR_zero_def fun_upd_twist)

lemma SD_open_dir:
  assumes "heap_ok (heap w)" "length filepath + 1 + sizeof_FIL cfg \<le> avail (heap w)"
    and "open_mode cfg drv (vol w) filepath mode = (v1, m')"
    and "f_open drv v1 filepath m' = (v2, r, fil)" "r \<noteq> FR_OK"
    and "f_opendir drv v2 filepath = (v3, FR_OK, d)"
  shows "SD_open cfg drv w filepath mode =
           Inr (w\<lparr>vol := v3,
                  heap := (heap w)\<lparr>objs := (objs (heap w))
                               (brk (heap w) \<mapsto> (length filepath + 1, Chars filepath)),
                             brk := Suc (Suc (brk (heap w))),
                             avail := avail (heap w) - (length filepath + 1)\<rparr>\<rparr>,
                \<lparr>m_name = brk (heap w), m_fil = nullptr, m_dir = d, m_res = FR_OK\<rparr>)"
proof -
  have b: "0 < brk (heap w)" using assms(1) by (rule heap_ok_brk)
  have f1: "objs (heap w) (Suc (brk (heap w))) = None"
    using assms(1) by (rule heap_ok_fresh) simp
  show ?thesis
    using assms(2-) b f1
    by (simp add: SD_open_def malloc_def poke_def free_def File_ctor_def DIR_zero_def
        fun_upd_twist fun_upd_fresh_None)
qed

lemma SD_open_empty:
  assumes "heap_ok (heap w)" "length filepath + 1 + sizeof_FIL cfg \<le> avail (heap w)"
    and "open_mode cfg drv (vol w) filepath mode = (v1, m')"
    and "f_open drv v1 filepath m' = (v2, r, fil)" "r \<noteq> FR_OK"
    and "f_opendir drv v2 filepath = (v3, r', d)" "r' \<noteq> FR_OK"
  shows "SD_open cfg drv w filepath mode =
           Inr (w\<lparr>vol := v3, heap := (heap w)\<lparr>brk := Suc (Suc (brk (heap w)))\<rparr>\<rparr>,
                \<lparr>m_name = nullptr, m_fil = nullptr, m_dir = d, m_res = r'\<rparr>)"
proof -
  have b: "0 < brk (heap w)" using assms(1) by (rule heap_ok_brk)
  have f0: "objs (heap w) (brk (heap w)) = None"
    using assms(1) by (rule heap_ok_fresh) simp
  have f1: "objs (heap w) (Suc (brk (heap w))) = None"
    using assms(1) by (rule heap_ok_fresh) simp
  show ?thesis
    using assms(2-) b f0 f1
    by (simp add: SD_open_def malloc_def poke_def free_def File_ctor_def DIR_zero_def
        fun_upd_twist fun_upd_fresh_None)
qed

text \<open>
  The three ways in which \<open>SDClass::open\<close> returns.
\<close>

lemma SD_open_cases:
  assumes "heap_ok (heap w)" and "SD_open cfg drv w p m = Inr (w', f)"
  obtains
    (as_file) v fil where
      "w' = w\<lparr>vol := v,
              heap := (heap w)\<lparr>objs := (objs (heap w))
                           (brk (heap w) \<mapsto> (length p + 1, Chars p),
                            Suc (brk (heap w)) \<mapsto> (sizeof_FIL cfg, FilObj fil)),
                         brk := Suc (Suc (brk (heap w))),
                         avail := avail (heap w) - (length p + 1) - sizeof_FIL cfg\<rparr>\<rparr>"
      "f = \<lparr>m_name = brk (heap w), m_fil = Suc (brk (heap w)), m_dir = DIR_zero, m_res = FR_OK\<rparr>"
      "length p + 1 + sizeof_FIL cfg \<le> avail (heap w)"
      "\<exists>v1 m'. f_open drv v1 p m' = (v, FR_OK, fil)"
  | (as_dir) v d where
      "w' = w\<lparr>vol := v,
              heap := (heap w)\<lparr>objs := (objs (heap w))(brk (heap w) \<mapsto> (length p + 1, Chars p)),
                         brk := Suc (Suc (brk (heap w))),
                         avail := avail (heap w) - (length p + 1)\<rparr>\<rparr>"
      "f = \<lparr>m_name = brk (heap w), m_fil = nullptr, m_dir = d, m_res = FR_OK\<rparr>"
      "length p + 1 + sizeof_FIL cfg \<le> avail (heap w)"
      "\<exists>v2. f_opendir drv v2 p = (v, FR_OK, d)"
  | (as_empty) v d r' where
      "w' = w\<lparr>vol := v, heap := (heap w)\<lparr>brk := Suc (Suc (brk (heap w)))\<rparr>\<rparr>"
      "f = \<lparr>m_name = nullptr, m_fil = nullptr, m_dir = d, m_res = r'\<rparr>"
      "r' \<noteq> FR_OK"
      "\<exists>v2. f_opendir drv v2 p = (v, r', d)"
proof -
  obtain v1 m' where om: "open_mode cfg drv (vol w) p m = (v1, m')" by fastforce
  obtain v2 r fil where o: "f_open drv v1 p m' = (v2, r, fil)" by (metis prod_cases3)
  obtain v3 r' d where d: "f_opendir drv v2 p = (v3, r', d)" by (metis prod_cases3)
  have mem: "length p + 1 + sizeof_FIL cfg \<le> avail (heap w)"
    using assms(2) SD_open_halts[of w p cfg drv m]
    by (cases "length p + 1 + sizeof_FIL cfg \<le> avail (heap w)") auto
  show thesis
  proof (cases "r = FR_OK")
    case True
    show thesis
      using assms(2) SD_open_file[OF assms(1) mem om o[unfolded True]] o[unfolded True] mem
      by (intro as_file[where v=v2 and fil=fil]) auto
  next
    case rf: False
    show thesis
    proof (cases "r' = FR_OK")
      case True
      show thesis
        using assms(2) SD_open_dir[OF assms(1) mem om o rf d[unfolded True]] d[unfolded True] mem
        by (intro as_dir[where v=v3 and d=d]) auto
    next
      case rd: False
      show thesis
        using assms(2) SD_open_empty[OF assms(1) mem om o rf d rd] d rd
        by (intro as_empty[where v=v3 and d=d and r'=r']) auto
    qed
  qed
qed

lemma SD_open_frame:
  assumes "heap_ok (heap w)" and "SD_open cfg drv w p m = Inr (w', f)"
  shows "heap_ok (heap w') \<and> brk (heap w') = Suc (Suc (brk (heap w))) \<and> sink w' = sink w \<and>
         (\<forall>q. q < brk (heap w) \<longrightarrow> objs (heap w') q = objs (heap w) q)"
  using assms(1)
  by (cases rule: SD_open_cases[OF assms]) (auto simp: heap_ok_def, (meson less_SucI)+)

lemma native_open_fs:
  "native_objects_ok drv \<Longrightarrow> f_open drv v p m = (v', r, fil) \<Longrightarrow> (r = FR_OK) = (fil_fs fil \<noteq> 0)"
  unfolding native_objects_ok_def by (metis fst_conv snd_conv)

lemma native_opendir_fs:
  "native_objects_ok drv \<Longrightarrow> f_opendir drv v p = (v', r, d) \<Longrightarrow> (r = FR_OK) = (dir_fs d \<noteq> 0)"
  unfolding native_objects_ok_def by (metis fst_conv snd_conv)

lemma card_drv_objects_ok: "native_objects_ok card_drv"
  by (simp add: native_objects_ok_def card_drv_def card_open_def card_opendir_def
      FIL_zero_def DIR_zero_def)

lemma heap_init_ok: "heap_ok (heap_init n)"
  by (simp add: heap_ok_def heap_init_def)

lemma open_file_world:
  "SD_open stm32_cfg card_drv (world_init 1000) ''/r/f.txt'' 1 = Inr (file_world, file_handle)"
  by (simp add: SD_open_def malloc_def poke_def free_def open_mode_def stm32_cfg_def
      world_init_def heap_init_def card_drv_def card_open_def file_world_def file_handle_def
      File_ctor_def DIR_zero_def fun_upd_twist)

lemma open_dir_world:
  "SD_open stm32_cfg card_drv (world_init 1000) ''/r'' 1 = Inr (dir_world, dir_handle)"
  by (simp add: SD_open_def malloc_def poke_def free_def open_mode_def stm32_cfg_def
      world_init_def heap_init_def card_drv_def card_open_def card_opendir_def
      dir_world_def dir_handle_def FIL_zero_def
      File_ctor_def DIR_zero_def fun_upd_twist)

lemma dir_world_ok: "heap_ok (heap dir_world)"
  by (simp add: heap_ok_def dir_world_def)

lemma dir_world_name: "load_str (heap dir_world) (m_name dir_handle) = Inr ''/r''"
  by (simp add: load_str_def dir_world_def dir_handle_def)

text \<open>
  Claim C1. \<open>SDClass::open\<close> stops in \<open>Error_Handler\<close> exactly when the heap cannot
  hold the path and the \<open>FIL\<close> object. Otherwise it returns a handle that is never half
  bound: it is file-bound when the native file-open succeeds; when that fails and the
  native directory-open succeeds it is directory-bound and the only block added to the
  heap is the path (the \<open>FIL\<close> block has been freed); when both fail it is fully empty,
  the heap holds the blocks it held before, and \<open>operator bool\<close> is false.
\<close>

theorem open_never_half_bound:
  assumes "native_objects_ok drv" and "heap_ok (heap w)"
    and "open_mode cfg drv (vol w) filepath mode = (v1, m')"
    and "f_open drv v1 filepath m' = (v2, r, fil)"
    and "f_opendir drv v2 filepath = (v3, r', d)"
  shows "if avail (heap w) < length filepath + 1 + sizeof_FIL cfg
         then SD_open cfg drv w filepath mode = Inl Halted
         else (\<exists>w' f. SD_open cfg drv w filepath mode = Inr (w', f) \<and>
                 \<not> half_bound (heap w') f \<and>
                 File_bool (heap w') f = Inr (r = FR_OK \<or> r' = FR_OK) \<and>
                 (if r = FR_OK then file_bound (heap w') f
                  else if r' = FR_OK then
                    dir_bound (heap w') f \<and>
                    objs (heap w') =
                      (objs (heap w))(m_name f \<mapsto> (length filepath + 1, Chars filepath))
                  else
                    fully_empty f \<and> objs (heap w') = objs (heap w) \<and>
                    avail (heap w') = avail (heap w)))"
proof (cases "avail (heap w) < length filepath + 1 + sizeof_FIL cfg")
  case True
  then show ?thesis by (simp add: SD_open_halts)
next
  case False
  then have mem: "length filepath + 1 + sizeof_FIL cfg \<le> avail (heap w)" by simp
  have b: "0 < brk (heap w)" using assms(2) by (rule heap_ok_brk)
  show ?thesis
  proof (cases "r = FR_OK")
    case True
    have live: "fil_fs fil \<noteq> 0" using native_open_fs[OF assms(1,4)] True by simp
    show ?thesis
      using False True live b SD_open_file[OF assms(2) mem assms(3) assms(4)[unfolded True]]
      by (simp add: half_bound_def file_bound_def path_bound_def file_live_def dir_live_def
          load_FIL_def load_str_def File_bool_def DIR_zero_def)
  next
    case rf: False
    show ?thesis
    proof (cases "r' = FR_OK")
      case True
      have live: "dir_fs d \<noteq> 0" using native_opendir_fs[OF assms(1,5)] True by simp
      show ?thesis
        using False rf True live b
          SD_open_dir[OF assms(2) mem assms(3,4) rf assms(5)[unfolded True]]
        by (simp add: half_bound_def dir_bound_def path_bound_def file_live_def dir_live_def
            load_str_def File_bool_def)
    next
      case rd: False
      have dead: "dir_fs d = 0" using native_opendir_fs[OF assms(1,5)] rd by simp
      show ?thesis
        using False rf rd dead SD_open_empty[OF assms(2) mem assms(3,4) rf assms(5) rd]
        by (simp add: half_bound_def fully_empty_def dir_live_def File_bool_def)
    qed
  qed
qed

text \<open>
  The theorem on the card, at a directory, at a file, at a path where nothing exists, and
  with a heap too small for the path and the \<open>FIL\<close> object.
\<close>

theorem open_never_half_bound_witness:
  "native_objects_ok card_drv \<and> heap_ok (heap (world_init 1000)) \<and>
   (\<exists>w' f. SD_open stm32_cfg card_drv (world_init 1000) ''/r'' 1 = Inr (w', f) \<and>
      dir_bound (heap w') f \<and> \<not> half_bound (heap w') f \<and>
      File_bool (heap w') f = Inr True) \<and>
   (\<exists>w' f. SD_open stm32_cfg card_drv (world_init 1000) ''/r/f.txt'' 1 = Inr (w', f) \<and>
      file_bound (heap w') f \<and> \<not> half_bound (heap w') f \<and>
      File_bool (heap w') f = Inr True) \<and>
   (\<exists>w' f. SD_open stm32_cfg card_drv (world_init 1000) ''/q'' 1 = Inr (w', f) \<and>
      fully_empty f \<and> \<not> half_bound (heap w') f \<and>
      File_bool (heap w') f = Inr False) \<and>
   SD_open stm32_cfg card_drv (world_init 10) ''/r'' 1 = Inl Halted"
proof -
  have c: "native_objects_ok card_drv" by (rule card_drv_objects_ok)
  have h: "\<And>n. heap_ok (heap (world_init n))" by (simp add: world_init_def heap_init_ok)
  have m: "\<And>n p. open_mode stm32_cfg card_drv (vol (world_init n)) p 1 = (True, 1)"
    by (simp add: open_mode_def stm32_cfg_def world_init_def)
  have o1: "f_open card_drv True ''/r'' 1 = (True, FR_NO_FILE, FIL_zero)"
    by (simp add: card_drv_def card_open_def)
  have d1: "f_opendir card_drv True ''/r'' =
             (True, FR_OK, \<lparr>dir_fs = 1, dir_sclust = 1, dir_dptr = 0\<rparr>)"
    by (simp add: card_drv_def card_opendir_def)
  have o2: "f_open card_drv True ''/r/f.txt'' 1 =
             (True, FR_OK, \<lparr>fil_fs = 1, fil_flag = 1, fil_fptr = 0, fil_objsize = 3\<rparr>)"
    by (simp add: card_drv_def card_open_def)
  have d2: "f_opendir card_drv True ''/r/f.txt'' = (True, FR_NO_PATH, DIR_zero)"
    by (simp add: card_drv_def card_opendir_def)
  have o3: "f_open card_drv True ''/q'' 1 = (True, FR_NO_FILE, FIL_zero)"
    by (simp add: card_drv_def card_open_def)
  have d3: "f_opendir card_drv True ''/q'' = (True, FR_NO_PATH, DIR_zero)"
    by (simp add: card_drv_def card_opendir_def)
  have a: "avail (heap (world_init 1000)) = 1000" "avail (heap (world_init 10)) = 10"
    "sizeof_FIL stm32_cfg = 40"
    by (simp_all add: world_init_def heap_init_def stm32_cfg_def)
  from open_never_half_bound[OF c h[of 1000] m[of 1000] o1 d1]
    open_never_half_bound[OF c h[of 1000] m[of 1000] o2 d2]
    open_never_half_bound[OF c h[of 1000] m[of 1000] o3 d3]
    open_never_half_bound[OF c h[of 10] m[of 10] o1 d1]
  show ?thesis
    using c h[of 1000] by (simp add: a) blast
qed

section \<open>Closing\<close>

lemma load_str_Chars: "\<not> isl (load_str hp p) \<Longrightarrow> \<exists>n s. objs hp p = Some (n, Chars s)"
  by (auto simp: load_str_def split: option.splits obj.splits)

lemma load_FIL_FilObj: "\<not> isl (load_FIL hp p) \<Longrightarrow> \<exists>n fil. objs hp p = Some (n, FilObj fil)"
  by (auto simp: load_FIL_def split: option.splits obj.splits)

lemma load_str_cong: "objs hp' p = objs hp p \<Longrightarrow> load_str hp' p = load_str hp p"
  by (simp add: load_str_def)

lemma close_fil_ok:
  assumes "m_name f \<noteq> nullptr" "owns (heap w) f"
  shows "\<exists>w1. close_fil drv w f = Inr (w1, f\<lparr>m_fil := nullptr\<rparr>) \<and>
           sink w1 = sink w \<and>
           objs (heap w1) = (objs (heap w))(m_fil f := (if m_fil f = nullptr then objs (heap w) nullptr else None)) \<and>
           objs (heap w1) (m_name f) = objs (heap w) (m_name f)"
proof (cases "m_fil f = nullptr")
  case True
  then show ?thesis by (simp add: close_fil_def)
next
  case False
  obtain n fil where fo: "objs (heap w) (m_fil f) = Some (n, FilObj fil)"
    using assms False load_FIL_FilObj unfolding owns_def by blast
  obtain k s where no: "objs (heap w) (m_name f) = Some (k, Chars s)"
    using assms load_str_Chars unfolding owns_def by blast
  have ne: "m_fil f \<noteq> m_name f" using fo no by auto
  show ?thesis
    using False fo ne
    by (auto simp: close_fil_def load_FIL_def free_def poke_def split: prod.splits)
qed

lemma close_dir_ok:
  assumes "m_name f \<noteq> nullptr" "\<not> isl (load_str (heap w) (m_name f))"
  shows "\<exists>w1 d. close_dir drv w f = Inr (w1, f\<lparr>m_dir := d, m_name := nullptr\<rparr>) \<and>
           sink w1 = sink w \<and>
           objs (heap w1) = (objs (heap w))(m_name f := None) \<and>
           (dir_live f \<longrightarrow> d = snd (snd (f_closedir drv (vol w) (m_dir f)))) \<and>
           (\<not> dir_live f \<longrightarrow> d = m_dir f)"
proof -
  obtain k s where no: "objs (heap w) (m_name f) = Some (k, Chars s)"
    using assms load_str_Chars by blast
  show ?thesis
    using assms(1) no
    by (auto simp: close_dir_def free_def dir_live_def split: prod.splits)
qed

lemma close_ok:
  assumes "m_name f \<noteq> nullptr" "owns (heap w) f"
  shows "\<exists>w1 d. close drv w f = Inr (w1, f\<lparr>m_fil := nullptr, m_dir := d, m_name := nullptr\<rparr>) \<and>
           sink w1 = sink w \<and>
           objs (heap w1) = (objs (heap w))
              (m_fil f := (if m_fil f = nullptr then objs (heap w) nullptr else None),
               m_name f := None)"
proof -
  obtain w1 where 1: "close_fil drv w f = Inr (w1, f\<lparr>m_fil := nullptr\<rparr>)"
      and s1: "sink w1 = sink w"
      and o1: "objs (heap w1) = (objs (heap w))(m_fil f := (if m_fil f = nullptr then objs (heap w) nullptr else None))"
      and n1: "objs (heap w1) (m_name f) = objs (heap w) (m_name f)"
    using close_fil_ok[OF assms] by blast
  have "\<not> isl (load_str (heap w) (m_name f))" using assms by (simp add: owns_def)
  then have l: "\<not> isl (load_str (heap w1) (m_name (f\<lparr>m_fil := nullptr\<rparr>)))"
    using load_str_cong[OF n1] by simp
  have nn: "m_name (f\<lparr>m_fil := nullptr\<rparr>) \<noteq> nullptr" using assms(1) by simp
  obtain w2 d where 2: "close_dir drv w1 (f\<lparr>m_fil := nullptr\<rparr>) =
        Inr (w2, f\<lparr>m_fil := nullptr, m_dir := d, m_name := nullptr\<rparr>)"
      and s2: "sink w2 = sink w1"
      and o2: "objs (heap w2) = (objs (heap w1))(m_name f := None)"
    using close_dir_ok[OF nn l, of drv] by auto
  show ?thesis
    using assms(1) 1 2 s1 s2 o1 o2
    by (intro exI[of _ w2] exI[of _ d]) (simp add: close_def)
qed


text \<open>
  Claim C3. On a handle whose non-null pointers refer to its own live blocks,
  \<open>File::close\<close> returns without a fault, \<open>operator bool\<close> is false afterwards, and a
  second \<open>close\<close> returns the same world and handle; on a handle with a null \<open>_name\<close>
  (never opened, or already closed) it changes nothing.
\<close>

theorem close_idempotent:
  assumes "owns (heap w) f"
  shows "\<exists>w1 f1. close drv w f = Inr (w1, f1) \<and>
           File_bool (heap w1) f1 = Inr False \<and>
           close drv w1 f1 = Inr (w1, f1) \<and>
           (m_name f = nullptr \<longrightarrow> w1 = w \<and> f1 = f)"
proof (cases "m_name f = nullptr")
  case True
  then show ?thesis by (simp add: close_def File_bool_def)
next
  case False
  obtain w1 d where "close drv w f = Inr (w1, f\<lparr>m_fil := nullptr, m_dir := d, m_name := nullptr\<rparr>)"
    using close_ok[OF False assms] by blast
  then show ?thesis using False by (simp add: close_def File_bool_def)
qed

text \<open>
  The theorem at the handle of the opened file \<open>/r/f.txt\<close> and at a handle that was never
  opened.
\<close>

theorem close_idempotent_witness:
  "owns (heap file_world) file_handle \<and>
   (\<exists>w1 f1. close card_drv file_world file_handle = Inr (w1, f1) \<and>
      File_bool (heap w1) f1 = Inr False \<and> close card_drv w1 f1 = Inr (w1, f1)) \<and>
   owns (heap (world_init 50)) (File_ctor FR_OK) \<and>
   close card_drv (world_init 50) (File_ctor FR_OK) = Inr (world_init 50, File_ctor FR_OK) \<and>
   File_bool (heap (world_init 50)) (File_ctor FR_OK) = Inr False"
proof -
  have o: "owns (heap file_world) file_handle"
    by (simp add: owns_def load_str_def load_FIL_def file_world_def file_handle_def)
  have o': "owns (heap (world_init 50)) (File_ctor FR_OK)"
    by (simp add: owns_def File_ctor_def)
  from close_idempotent[OF o, of card_drv] close_idempotent[OF o', of card_drv]
  show ?thesis
    using o o' by (auto simp: File_ctor_def)
qed

section \<open>The invariant of the handle\<close>

lemma ctor_inv: "handle_inv (File_ctor r)"
  by (simp add: handle_inv_def File_ctor_def dir_live_def DIR_zero_def)

lemma open_inv:
  assumes "native_objects_ok drv" "heap_ok (heap w)"
    and "SD_open cfg drv w filepath mode = Inr (w', f)"
  shows "handle_inv f \<and> owns (heap w') f"
proof -
  obtain v1 m' where m: "open_mode cfg drv (vol w) filepath mode = (v1, m')" by fastforce
  obtain v2 r fil where o: "f_open drv v1 filepath m' = (v2, r, fil)" by (metis prod_cases3)
  obtain v3 r' d where d: "f_opendir drv v2 filepath = (v3, r', d)" by (metis prod_cases3)
  have mem: "length filepath + 1 + sizeof_FIL cfg \<le> avail (heap w)"
    using assms(3) SD_open_halts[of w filepath cfg drv mode] by (cases "length filepath + 1 + sizeof_FIL cfg \<le> avail (heap w)") auto
  have b: "0 < brk (heap w)" using assms(2) by (rule heap_ok_brk)
  show ?thesis
  proof (cases "r = FR_OK")
    case True
    show ?thesis
      using assms(3) b SD_open_file[OF assms(2) mem m o[unfolded True]]
      by (auto simp: handle_inv_def owns_def dir_live_def DIR_zero_def load_str_def load_FIL_def)
  next
    case rf: False
    show ?thesis
    proof (cases "r' = FR_OK")
      case True
      have "dir_fs d \<noteq> 0" using native_opendir_fs[OF assms(1) d] True by simp
      then show ?thesis
        using assms(3) b SD_open_dir[OF assms(2) mem m o rf d[unfolded True]]
        by (auto simp: handle_inv_def owns_def dir_live_def load_str_def)
    next
      case rd: False
      have "dir_fs d = 0" using native_opendir_fs[OF assms(1) d] rd by simp
      then show ?thesis
        using assms(3) SD_open_empty[OF assms(2) mem m o rf d rd]
        by (auto simp: handle_inv_def owns_def dir_live_def)
    qed
  qed
qed

lemma close_inv:
  assumes "owns (heap w) f" "close drv w f = Inr (w', f')" "handle_inv f"
    and "dir_fs (snd (snd (f_closedir drv (vol w) (m_dir f)))) = 0"
  shows "handle_inv f'"
proof (cases "m_name f = nullptr")
  case True
  then show ?thesis using assms by (simp add: close_def)
next
  case False
  obtain w1 where 1: "close_fil drv w f = Inr (w1, f\<lparr>m_fil := nullptr\<rparr>)"
    using close_fil_ok[OF False assms(1)] by blast
  show ?thesis
  proof (cases "m_fil f = nullptr")
    case True
    then have "w1 = w" using 1 by (simp add: close_fil_def)
    then show ?thesis
      using assms(2,4) False 1
      by (auto simp: close_def close_dir_def handle_inv_def dir_live_def
          split: if_splits prod.splits sum.splits)
  next
    case nf: False
    then have "\<not> dir_live f" using assms(3) by (auto simp: handle_inv_def)
    then show ?thesis
      using assms(2) False 1
      by (auto simp: close_def close_dir_def handle_inv_def dir_live_def
          split: if_splits prod.splits sum.splits)
  qed
qed

text \<open>
  Claim C2. The invariant holds after construction (\<open>ctor_inv\<close>) and after \<open>open\<close>
  (\<open>open_inv\<close>), and \<open>close\<close> keeps it when \<open>f_closedir\<close> clears the \<open>fs\<close> member
  (\<open>close_inv\<close>). \<open>File::close\<close> itself never resets \<open>_dir\<close>, although it resets \<open>_fil\<close>
  whatever \<open>f_close\<close> returns. Here \<open>/r\<close> is opened as a directory and the card is taken
  out before \<open>close\<close>: \<open>f_closedir\<close> fails and leaves the object as it is, so after
  \<open>close\<close> the path is unbound while the directory state is still bound.
\<close>

theorem close_after_card_removed:
  "SD_open stm32_cfg card_drv (world_init 1000) ''/r'' 1 = Inr (dir_world, dir_handle) \<and>
   dir_bound (heap dir_world) dir_handle \<and> handle_inv dir_handle \<and>
   close card_drv (dir_world\<lparr>vol := False\<rparr>) dir_handle =
     Inr ((world_init 1000)\<lparr>vol := False, heap := (heap_init 1000)\<lparr>brk := 3\<rparr>\<rparr>,
          dir_handle\<lparr>m_name := nullptr\<rparr>) \<and>
   m_name (dir_handle\<lparr>m_name := nullptr\<rparr>) = nullptr \<and>
   dir_live (dir_handle\<lparr>m_name := nullptr\<rparr>) \<and>
   \<not> handle_inv (dir_handle\<lparr>m_name := nullptr\<rparr>)"
  by (simp add: open_dir_world)
     (simp add: dir_bound_def path_bound_def load_str_def dir_live_def handle_inv_def
      dir_world_def dir_handle_def close_def close_fil_def close_dir_def free_def card_drv_def
      world_init_def heap_init_def)

section \<open>The mode handed to the native file-open\<close>

lemma SD_exists_f_open_upd:
  "SD_exists (drv\<lparr>f_open := g\<rparr>) v p = SD_exists drv v p"
  by (simp add: SD_exists_def)

lemma open_mode_f_open_upd:
  "open_mode cfg (drv\<lparr>f_open := g\<rparr>) v p m = open_mode cfg drv v p m"
  by (simp add: open_mode_def SD_exists_f_open_upd)

lemma open_mode_snd:
  "snd (open_mode cfg drv v p mode) =
     (if mode = FILE_WRITE cfg \<and> \<not> snd (SD_exists drv v p)
      then mode OR FA_CREATE_ALWAYS cfg else mode)"
  by (simp add: open_mode_def split: prod.splits)

text \<open>
  Claim C9, as amended. The mode that \<open>SDClass::open\<close> hands to \<open>f_open\<close> is the mode
  with the create flag added exactly when the mode equals \<open>FILE_WRITE\<close> and no entity
  exists at the path, and the mode unchanged in every other case: \<open>open\<close> gives the same
  result with any other native file-open that agrees with \<open>f_open\<close> at that path and
  that mode.
\<close>

theorem open_create_flag:
  assumes "m' = (if mode = FILE_WRITE cfg \<and> \<not> snd (SD_exists drv (vol w) filepath)
                 then mode OR FA_CREATE_ALWAYS cfg else mode)"
    and "\<forall>v. g v filepath m' = f_open drv v filepath m'"
  shows "snd (open_mode cfg drv (vol w) filepath mode) = m' \<and>
         SD_open cfg (drv\<lparr>f_open := g\<rparr>) w filepath mode = SD_open cfg drv w filepath mode"
proof -
  have m: "snd (open_mode cfg drv (vol w) filepath mode) = m'"
    using assms(1) by (simp only: open_mode_snd)
  obtain v1 where om: "open_mode cfg drv (vol w) filepath mode = (v1, m')"
    using m by (cases "open_mode cfg drv (vol w) filepath mode") simp
  have g: "g v1 filepath m' = f_open drv v1 filepath m'" using assms(2) by simp
  have "SD_open cfg (drv\<lparr>f_open := g\<rparr>) w filepath mode = SD_open cfg drv w filepath mode"
    by (simp add: SD_open_def open_mode_f_open_upd om g Let_def
        cong: sum.case_cong prod.case_cong if_cong)
  with m show ?thesis by simp
qed

text \<open>
  The theorem at \<open>SD.open("/x", FILE_WRITE)\<close> where \<open>/x\<close> does not exist: the native
  file-open is asked with \<open>FA_WRITE | FA_CREATE_ALWAYS\<close> only.
\<close>

theorem open_create_flag_witness:
  "(let g = (\<lambda>v p m. if m = 0x0A then card_open v p m else (v, FR_DISK_ERR, FIL_zero))
    in (\<forall>v. g v ''/x'' 0x0A = f_open card_drv v ''/x'' 0x0A) \<and>
       snd (open_mode stm32_cfg card_drv True ''/x'' 0x02) = 0x0A \<and>
       SD_open stm32_cfg (card_drv\<lparr>f_open := g\<rparr>) (world_init 1000) ''/x'' 0x02 =
       SD_open stm32_cfg card_drv (world_init 1000) ''/x'' 0x02)"
proof -
  let ?g = "\<lambda>v p m. if m = (0x0A :: 8 word) then card_open v p m else (v, FR_DISK_ERR, FIL_zero)"
  have m: "(0x0A :: 8 word) =
      (if (0x02 :: 8 word) = FILE_WRITE stm32_cfg \<and>
          \<not> snd (SD_exists card_drv (vol (world_init 1000)) ''/x'')
       then 0x02 OR FA_CREATE_ALWAYS stm32_cfg else 0x02)"
    by (simp add: stm32_cfg_def SD_exists_def card_drv_def card_stat_def world_init_def)
  have g: "\<forall>v. ?g v ''/x'' 0x0A = f_open card_drv v ''/x'' 0x0A"
    by (simp add: card_drv_def)
  from open_create_flag[of "0x0A" "0x02" stm32_cfg card_drv "world_init 1000" "''/x''" ?g] m g
  show ?thesis by (simp add: world_init_def Let_def)
qed

text \<open>
  Claim C9 as stated fails: the mode \<open>FA_READ | FA_WRITE\<close> carries the write bit and
  nothing exists at \<open>/x\<close>, yet \<open>f_open\<close> gets the mode without the create flag, and
  \<open>open\<close> returns an empty handle.
\<close>

theorem open_write_bit_without_create:
  "(3 :: 8 word) AND FA_WRITE \<noteq> 0 \<and>
   SD_exists card_drv True ''/x'' = (True, False) \<and>
   open_mode stm32_cfg card_drv True ''/x'' 3 = (True, 3) \<and>
   (3 :: 8 word) AND FA_CREATE_ALWAYS stm32_cfg = 0 \<and>
   SD_open stm32_cfg card_drv (world_init 1000) ''/x'' 3 =
     Inr ((world_init 1000)\<lparr>heap := (heap_init 1000)\<lparr>brk := 3\<rparr>\<rparr>,
          \<lparr>m_name = nullptr, m_fil = nullptr, m_dir = DIR_zero, m_res = FR_NO_PATH\<rparr>)"
  by (simp add: FA_WRITE_def SD_exists_def open_mode_def stm32_cfg_def card_drv_def card_stat_def
      card_open_def card_opendir_def SD_open_def malloc_def poke_def free_def world_init_def
      heap_init_def File_ctor_def DIR_zero_def FIL_zero_def)

section \<open>Seeking\<close>

lemma load_poke: "load_FIL hp p = Inr fil \<Longrightarrow> load_FIL (poke hp p (FilObj fil')) p = Inr fil'"
  by (auto simp: load_FIL_def poke_def split: option.splits obj.splits)

lemma card_lseek_relocates: "lseek_relocates card_drv"
  by (auto simp: lseek_relocates_def card_drv_def card_lseek_def f_size_def f_tell_def)

text \<open>
  Claim C4, as amended. For a handle whose \<open>_fil\<close> points to a \<open>FIL\<close> object: when
  \<open>pos\<close> is beyond the size, \<open>File::seek\<close> returns false and changes nothing, so the
  position is the one from before; when \<open>pos\<close> is within the size, \<open>seek\<close> returns true exactly when
  \<open>f_lseek\<close> returns \<open>FR_OK\<close>, the position afterwards is the one \<open>f_lseek\<close> left,
  and that is \<open>pos\<close> when \<open>f_lseek\<close> succeeded and moves the file pointer to the offset it
  is given.
\<close>

theorem seek_bounds:
  assumes "load_FIL (heap w) (m_fil f) = Inr fil"
    and "f_lseek drv (vol w) fil pos = (v', r, fil')"
  shows "if pos > f_size fil
         then seek drv w f pos = Inr (w, False) \<and> position (heap w) f = Inr (f_tell fil)
         else (\<exists>w'. seek drv w f pos = Inr (w', r = FR_OK) \<and>
                 position (heap w') f = Inr (f_tell fil') \<and>
                 (r = FR_OK \<and> lseek_relocates drv \<longrightarrow> position (heap w') f = Inr pos))"
proof (cases "pos > f_size fil")
  case True
  then show ?thesis using assms by (simp add: seek_def size_f_def position_def)
next
  case False
  have rel: "r = FR_OK \<and> lseek_relocates drv \<longrightarrow> f_tell fil' = pos"
    using False assms(2) unfolding lseek_relocates_def
    by (metis fst_conv snd_conv not_less)
  show ?thesis
    using False assms rel load_poke[OF assms(1), of fil']
    by (auto simp: seek_def size_f_def position_def)
qed

text \<open>
  The theorem on the open file \<open>/r/f.txt\<close> of size 3, at positions 2 and 4.
\<close>

theorem seek_bounds_witness:
  "lseek_relocates card_drv \<and>
   size_f (heap file_world) file_handle = Inr 3 \<and>
   (\<exists>w'. seek card_drv file_world file_handle 2 = Inr (w', True) \<and>
      position (heap w') file_handle = Inr 2) \<and>
   seek card_drv file_world file_handle 4 = Inr (file_world, False) \<and>
   position (heap file_world) file_handle = Inr 0"
proof -
  let ?fil = "\<lparr>fil_fs = 1, fil_flag = 1, fil_fptr = 0, fil_objsize = 3\<rparr>"
  have l: "load_FIL (heap file_world) (m_fil file_handle) = Inr ?fil"
    by (simp add: load_FIL_def file_world_def file_handle_def)
  have s2: "f_lseek card_drv (vol file_world) ?fil 2 = (True, FR_OK, ?fil\<lparr>fil_fptr := 2\<rparr>)"
    by (simp add: card_drv_def card_lseek_def file_world_def)
  have s4: "f_lseek card_drv (vol file_world) ?fil 4 = (True, FR_OK, ?fil\<lparr>fil_fptr := 3\<rparr>)"
    by (simp add: card_drv_def card_lseek_def file_world_def)
  from seek_bounds[OF l s2] seek_bounds[OF l s4] card_lseek_relocates l
  show ?thesis by (auto simp: f_size_def f_tell_def size_f_def)
qed

text \<open>
  Claim C4 as stated fails: the card is taken out after \<open>/r/f.txt\<close> was opened, and
  \<open>seek(2)\<close> on the file of size 3 returns false, since \<open>f_lseek\<close> does not return
  \<open>FR_OK\<close>.
\<close>

theorem seek_fails_in_range:
  "size_f (heap (file_world_at 0)) file_handle = Inr 3 \<and> (2 :: 32 word) \<le> 3 \<and>
   seek card_drv ((file_world_at 0)\<lparr>vol := False\<rparr>) file_handle 2 =
     Inr ((file_world_at 0)\<lparr>vol := False\<rparr>, False)"
  by (simp add: seek_def size_f_def load_FIL_def f_size_def file_world_at_def file_world_def
      file_handle_def poke_def card_drv_def card_lseek_def)

section \<open>Reading\<close>

lemma read_range:
  assumes "read drv w f junk = Inr (w', x)"
  shows "- 128 \<le> x \<and> x \<le> 127"
proof -
  have "\<And>d :: 8 word. - 128 \<le> sint d \<and> sint d \<le> 127"
  proof -
    fix d :: "8 word"
    have "- 128 \<le> sint d" using sint_ge[of d] by simp
    moreover have "sint d < 128" using sint_lt[of d] by simp
    ultimately show "- 128 \<le> sint d \<and> sint d \<le> 127" by linarith
  qed
  then show ?thesis
    using assms
    by (auto simp: read_def Let_def split: sum.splits prod.splits if_splits)
qed

lemma read_buf_count:
  assumes "load_FIL (heap w) (m_fil f) = Inr fil"
    and "f_read drv (vol w) fil len = (v, r, fil', bytes)"
    and "length bytes < 2 ^ 31"
  shows "\<exists>w'. read_buf drv w f len = Inr (w', if r = FR_OK then int (length bytes) else - 1, bytes)"
proof -
  have u: "unat (of_nat (length bytes) :: 32 word) = length bytes"
    using assms(3) by (simp add: unat_of_nat take_bit_nat_eq_self)
  have lt: "uint (of_nat (length bytes) :: 32 word) < 2 ^ 31"
    using assms(3) u by (metis of_nat_unat of_nat_less_iff of_nat_numeral of_nat_power)
  have d0: "- (2 ^ 31) \<le> (0::int)" by simp
  have ge: "- (2 ^ 31) \<le> uint (of_nat (length bytes) :: 32 word)"
    using d0 by (rule order_trans) simp
  have "signed_take_bit 31 (uint (of_nat (length bytes) :: 32 word)) =
        uint (of_nat (length bytes) :: 32 word)"
    using ge lt by (rule signed_take_bit_int_eq_self)
  then have "sint (of_nat (length bytes) :: 32 word) = uint (of_nat (length bytes) :: 32 word)"
    by (simp add: sint_uint)
  also have "\<dots> = int (length bytes)" using u by (metis of_nat_unat)
  finally show ?thesis using assms(1,2) by (simp add: read_buf_def Let_def)
qed

text \<open>
  Claim C5. \<open>File::read()\<close> returns its \<open>int8_t\<close> local, so what it returns lies between
  -128 and 127 (\<open>read_range\<close>). On the file \<open>/r/f.txt\<close> with the bytes \<open>0x48\<close>, \<open>0x80\<close>,
  \<open>0xFF\<close>: the first read returns 72, the second -128 instead of 128, the third -1
  instead of 255, and the fourth, at the end of the file, where \<open>f_read\<close> returns \<open>FR_OK\<close>
  and stores nothing, returns whatever the local held instead of -1. The buffer form does
  return the number of bytes read, or -1 (\<open>read_buf_count\<close>).
\<close>

theorem read_returns_signed_byte:
  "read card_drv (file_world_at 0) file_handle junk = Inr (file_world_at 1, 72) \<and>
   read card_drv (file_world_at 1) file_handle junk = Inr (file_world_at 2, - 128) \<and>
   read card_drv (file_world_at 2) file_handle junk = Inr (file_world_at 3, - 1) \<and>
   read card_drv (file_world_at 3) file_handle junk = Inr (file_world_at 3, sint junk)"
  by (simp add: read_def load_FIL_def poke_def file_world_at_def file_world_def file_handle_def
      card_drv_def card_read_def card_bytes_def Let_def)

section \<open>Available bytes\<close>

lemma sint_small:
  fixes n :: "32 word"
  assumes "unat n \<le> 0x7FFF"
  shows "sint n = int (unat n)"
proof -
  have u: "int (unat n) = uint n" by simp
  have a: "uint n \<le> 0x7FFF" using assms u by linarith
  have b: "0 \<le> uint n" by simp
  have c: "(32767::int) < 2 ^ 31" by simp
  have d0: "- (2 ^ 31) \<le> (0::int)" by simp
  have d: "- (2 ^ 31) \<le> uint n" using b d0 by (rule order_trans[rotated])
  have e: "uint n < 2 ^ 31" using a c by linarith
  have "signed_take_bit 31 (uint n) = uint n"
    using d e by (rule signed_take_bit_int_eq_self)
  then have "sint n = uint n" by (simp add: sint_uint)
  then show ?thesis using u by simp
qed

lemma clamp_sint:
  "sint (if n > 0x7FFF then 0x7FFF else n :: 32 word) = int (min (unat n) 0x7FFF)"
proof (cases "n > 0x7FFF")
  case True
  then have "unat n > 0x7FFF" by (simp add: word_less_nat_alt)
  then show ?thesis using True by (simp add: min_def)
next
  case False
  then have le: "unat n \<le> 0x7FFF" by (simp add: word_less_nat_alt not_less)
  show ?thesis using False le sint_small[OF le] by (simp add: min_def)
qed

lemma available_value:
  assumes "load_FIL hp (m_fil f) = Inr fil"
  shows "available hp f = Inr (int (min (unat (f_size fil - f_tell fil)) 0x7FFF))"
  using assms clamp_sint[of "f_size fil - f_tell fil"]
  by (simp add: available_def size_f_def position_def Let_def)

text \<open>
  Claim C8. For a handle whose \<open>_fil\<close> points to a \<open>FIL\<close> object, \<open>File::available\<close>
  is \<open>size() - position()\<close>, computed on \<open>uint32_t\<close>, clamped to at most \<open>0x7FFF\<close>; it
  lies between 0 and \<open>0x7FFF\<close> whatever the position and the size are, and when the
  position is not beyond the size it is the difference of the two numbers, clamped.
\<close>

theorem available_clamped:
  assumes "load_FIL hp (m_fil f) = Inr fil"
  shows "\<exists>a. available hp f = Inr a \<and>
           a = int (min (unat (f_size fil - f_tell fil)) 0x7FFF) \<and>
           0 \<le> a \<and> a \<le> 0x7FFF \<and>
           (f_tell fil \<le> f_size fil \<longrightarrow>
              a = min (int (unat (f_size fil)) - int (unat (f_tell fil))) 0x7FFF)"
proof -
  have nat_min: "\<And>p q k :: nat. q \<le> p \<Longrightarrow> int (min (p - q) k) = min (int p - int q) (int k)"
    by (auto simp: min_def)
  have "f_tell fil \<le> f_size fil \<Longrightarrow>
      int (min (unat (f_size fil - f_tell fil)) 0x7FFF) =
      min (int (unat (f_size fil)) - int (unat (f_tell fil))) (int 0x7FFF)"
    by (simp only: unat_sub) (rule nat_min, simp only: word_le_nat_alt)
  then have sub: "f_tell fil \<le> f_size fil \<longrightarrow>
      int (min (unat (f_size fil - f_tell fil)) 0x7FFF) =
      min (int (unat (f_size fil)) - int (unat (f_tell fil))) 0x7FFF"
    by (simp only: of_nat_numeral) blast
  have "(0::int) \<le> int (min (unat (f_size fil - f_tell fil)) 0x7FFF)" by (rule of_nat_0_le_iff)
  moreover have "int (min (unat (f_size fil - f_tell fil)) 0x7FFF) \<le> 0x7FFF"
    by (simp only: of_nat_numeral[symmetric, where 'a=int] of_nat_le_iff min.cobounded2)
  ultimately show ?thesis
    using available_value[OF assms] sub by blast
qed

text \<open>
  The theorem at size 100 with positions 90, 100 and 101.
\<close>

theorem available_clamped_witness:
  "(let hp = poke (heap file_world) (m_fil file_handle)
               (FilObj \<lparr>fil_fs = 1, fil_flag = 1, fil_fptr = 90, fil_objsize = 100\<rparr>)
    in available hp file_handle = Inr 10) \<and>
   (let hp = poke (heap file_world) (m_fil file_handle)
               (FilObj \<lparr>fil_fs = 1, fil_flag = 1, fil_fptr = 100, fil_objsize = 100\<rparr>)
    in available hp file_handle = Inr 0) \<and>
   (let hp = poke (heap file_world) (m_fil file_handle)
               (FilObj \<lparr>fil_fs = 1, fil_flag = 1, fil_fptr = 101, fil_objsize = 100\<rparr>)
    in available hp file_handle = Inr 0x7FFF)"
proof -
  let ?hp = "\<lambda>p. poke (heap file_world) (m_fil file_handle)
               (FilObj \<lparr>fil_fs = 1, fil_flag = 1, fil_fptr = p, fil_objsize = 100\<rparr>)"
  have l: "\<And>p. load_FIL (?hp p) (m_fil file_handle) =
      Inr \<lparr>fil_fs = 1, fil_flag = 1, fil_fptr = p, fil_objsize = 100\<rparr>"
    by (simp add: load_FIL_def poke_def file_world_def file_handle_def)
  from available_clamped[OF l[of 90]] available_clamped[OF l[of 100]] available_clamped[OF l[of 101]]
  show ?thesis by (simp add: f_size_def f_tell_def Let_def unsigned_minus_1_eq_mask mask_eq_exp_minus_1)
qed

section \<open>The name of a handle\<close>

lemma strrchr_from_absent: "c \<notin> set xs \<Longrightarrow> strrchr_from xs c i found = found"
  by (induction xs arbitrary: i found) auto

lemma strrchr_from_last:
  "c \<notin> set t \<Longrightarrow> strrchr_from (pre @ c # t) c i found = Some (i + length pre)"
  by (induction pre arbitrary: i found) (auto simp: strrchr_from_absent)

lemma strrchr_absent: "c \<notin> set s \<Longrightarrow> strrchr s c = None"
  by (simp add: strrchr_def strrchr_from_absent)

lemma strrchr_last: "c \<notin> set t \<Longrightarrow> strrchr (pre @ c # t) c = Some (length pre)"
  by (simp add: strrchr_def strrchr_from_last)

text \<open>
  Claim C10. For a handle whose \<open>_name\<close> holds the string \<open>s\<close>: when \<open>s\<close> has no
  \<open>'/'\<close>, \<open>File::name\<close> returns the null pointer, not \<open>s\<close>; when it has one, \<open>name\<close>
  returns the part of \<open>s\<close> after the last \<open>'/'\<close>.
\<close>

theorem name_null_without_separator:
  assumes "load_str hp (m_name f) = Inr s"
  shows "(CHR ''/'' \<notin> set s \<longrightarrow> name hp f = Inr None) \<and>
         (CHR ''/'' \<in> set s \<longrightarrow>
            (\<exists>pre t. s = pre @ CHR ''/'' # t \<and> CHR ''/'' \<notin> set t \<and> name hp f = Inr (Some t)))"
proof (intro conjI impI)
  assume "CHR ''/'' \<notin> set s"
  then show "name hp f = Inr None" using assms by (simp add: name_def strrchr_absent)
next
  assume "CHR ''/'' \<in> set s"
  then obtain pre t where s: "s = pre @ CHR ''/'' # t" and t: "CHR ''/'' \<notin> set t"
    using split_list_last by fastforce
  have "name hp f = Inr (Some t)"
    using assms t by (simp add: name_def s strrchr_last)
  then show "\<exists>pre t. s = pre @ CHR ''/'' # t \<and> CHR ''/'' \<notin> set t \<and> name hp f = Inr (Some t)"
    using s t by blast
qed

text \<open>
  The theorem at the paths \<open>/r/f.txt\<close> and \<open>f.txt\<close>.
\<close>

theorem name_null_without_separator_witness:
  "load_str (heap file_world) (m_name file_handle) = Inr ''/r/f.txt'' \<and>
   name (heap file_world) file_handle = Inr (Some ''f.txt'') \<and>
   load_str (heap file_world\<lparr>objs := [1 \<mapsto> (6, Chars ''f.txt'')]\<rparr>) (m_name file_handle) = Inr ''f.txt'' \<and>
   name (heap file_world\<lparr>objs := [1 \<mapsto> (6, Chars ''f.txt'')]\<rparr>) file_handle = Inr None"
proof -
  have a: "load_str (heap file_world) (m_name file_handle) = Inr ''/r/f.txt''"
    by (simp add: load_str_def file_world_def file_handle_def)
  have b: "load_str (heap file_world\<lparr>objs := [1 \<mapsto> (6, Chars ''f.txt'')]\<rparr>) (m_name file_handle) = Inr ''f.txt''"
    by (simp add: load_str_def file_world_def file_handle_def)
  from name_null_without_separator[OF a] name_null_without_separator[OF b]
  show ?thesis using a b by (auto simp: append_eq_Cons_conv Cons_eq_append_conv)
qed

section \<open>The next file of a directory\<close>

lemma join_path_single_separator:
  "\<exists>stem. join_path dirPath fn = stem @ ''/'' @ fn \<and>
          (dirPath = stem \<or> dirPath = stem @ ''/'')"
proof (cases "dirPath \<noteq> [] \<and> last dirPath = CHR ''/''")
  case True
  then have "dirPath = butlast dirPath @ ''/''" by (metis append_butlast_last_id)
  then show ?thesis using True by (metis append.assoc join_path_def)
next
  case False
  then show ?thesis by (auto simp: join_path_def)
qed

lemma take1_dot: "take 1 s = ''.'' \<longleftrightarrow> (\<exists>cs. s = CHR ''.'' # cs)"
  by (cases s) auto

text \<open>
  \<open>next_entry\<close> never delivers an entry whose short name begins with \<open>'.'\<close>.
\<close>

lemma next_entry_not_dot:
  "next_entry n drv v d = Some (v1, res, d1, fno) \<Longrightarrow> res = FR_OK \<Longrightarrow> take 1 (fname fno) \<noteq> ''.''"
  by (induction n arbitrary: v d) (auto split: prod.splits if_splits)

lemma File_ctor_empty: "fully_empty (File_ctor r) \<and> m_res (File_ctor r) = r"
  by (simp add: fully_empty_def File_ctor_def dir_live_def DIR_zero_def)

lemma openNextFile_entry:
  assumes "heap_ok (heap w)" and "load_str (heap w) (m_name f) = Inr dirPath"
    and "f_readdir drv (vol w) (m_dir f) = (v1, FR_OK, d1, fno)"
    and "fname fno \<noteq> []" and "take 1 (fname fno) \<noteq> ''.''"
    and "fn = entry_name cfg fno" and "sz = length dirPath + length fn + 2"
  shows "if avail (heap w) < sz then
           openNextFile (Suc n) cfg drv w f mode =
             Inr (w\<lparr>vol := v1\<rparr>, f\<lparr>m_dir := d1\<rparr>, File_ctor FR_NOT_ENOUGH_CORE)
         else
           (case SD_open cfg drv
                   (w\<lparr>vol := v1,
                      heap := (heap w)\<lparr>brk := Suc (brk (heap w)), avail := avail (heap w) - sz,
                                 objs := (objs (heap w))
                                   (brk (heap w) \<mapsto> (sz, Chars (join_path dirPath fn)))\<rparr>\<rparr>)
                   (join_path dirPath fn) mode of
              Inl e \<Rightarrow> openNextFile (Suc n) cfg drv w f mode = Inl e
            | Inr (w3, child) \<Rightarrow>
                openNextFile (Suc n) cfg drv w f mode =
                  Inr (w3\<lparr>heap := (heap w3)\<lparr>objs := (objs (heap w3))(brk (heap w) := None),
                                           avail := avail (heap w3) + sz\<rparr>\<rparr>,
                       f\<lparr>m_dir := d1\<rparr>, child))"
proof (cases "avail (heap w) < sz")
  case True
  obtain c cs where nm: "fname fno = c # cs" "c \<noteq> CHR ''.''"
    using assms(4,5) by (cases "fname fno") auto
  show ?thesis
    using True assms(2,3,6,7) nm by (simp add: malloc_def)
next
  case False
  obtain c cs where nm: "fname fno = c # cs" "c \<noteq> CHR ''.''"
    using assms(4,5) by (cases "fname fno") auto
  let ?hp2 = "(heap w)\<lparr>brk := Suc (brk (heap w)), avail := avail (heap w) - sz,
                        objs := (objs (heap w))(brk (heap w) \<mapsto> (sz, Chars (join_path dirPath fn)))\<rparr>"
  let ?w2 = "w\<lparr>vol := v1, heap := ?hp2\<rparr>"
  have b: "0 < brk (heap w)" using assms(1) by (rule heap_ok_brk)
  have ok2: "heap_ok (heap ?w2)"
    using assms(1) by (auto simp: heap_ok_def, (meson less_SucI)+)
  have unfold: "openNextFile (Suc n) cfg drv w f mode =
      (case SD_open cfg drv ?w2 (join_path dirPath fn) mode of
         Inl e \<Rightarrow> Inl e
       | Inr (w3, filtmp) \<Rightarrow>
           (case free (heap w3) (brk (heap w)) of
              Inl e \<Rightarrow> Inl e
            | Inr hp4 \<Rightarrow> Inr (w3\<lparr>heap := hp4\<rparr>, f\<lparr>m_dir := d1\<rparr>, filtmp)))"
    using False assms(2,3,6,7) nm b
    by (simp add: malloc_def poke_def join_path_def Let_def)
  show ?thesis
  proof (cases "SD_open cfg drv ?w2 (join_path dirPath fn) mode")
    case (Inl e)
    then show ?thesis using False unfold by simp
  next
    case (Inr r)
    obtain w3 child where r: "r = (w3, child)" by (cases r)
    have keep: "objs (heap w3) (brk (heap w)) = objs ?hp2 (brk (heap w))"
      using SD_open_frame[OF ok2 Inr[unfolded r]] by simp
    have "free (heap w3) (brk (heap w)) =
        Inr ((heap w3)\<lparr>objs := (objs (heap w3))(brk (heap w) := None), avail := avail (heap w3) + sz\<rparr>)"
      using keep b by (simp add: free_def)
    then show ?thesis using False unfold Inr r by simp
  qed
qed

lemma card_next_entry:
  "next_entry 2 card_drv True (m_dir dir_handle) =
     Some (True, FR_OK, \<lparr>dir_fs = 1, dir_sclust = 1, dir_dptr = 2\<rparr>, card_info ''sub'' 0x10 0)"
  by (simp add: numeral_2_eq_2 card_drv_def card_readdir_def card_entries_def card_info_def
      dir_handle_def)

text \<open>
  Claim C6, as amended. For a handle whose \<open>_name\<close> holds \<open>dirPath\<close>,
  \<open>File::openNextFile\<close> works on the first result of the native iterator that is not an
  entry whose short name \<open>fname\<close> begins with \<open>'.'\<close> (\<open>next_entry\<close>). When that result is a
  failure or the end of the entries, it returns an empty handle carrying the iterator's
  result code. Otherwise, when the heap cannot hold the child path, it returns an empty
  handle carrying \<open>FR_NOT_ENOUGH_CORE\<close>; and when it can, what it returns is what
  \<open>SDClass::open\<close> returns for \<open>join_path dirPath name\<close> and the mode, after which the
  buffer of the child path is freed. Here \<open>name\<close> is \<open>entry_name\<close>: the long name \<open>lfname\<close>
  when the build keeps it beside the short one and it is not empty, and the short name
  otherwise. \<open>join_path\<close> puts exactly one separator between the two
  (\<open>join_path_single_separator\<close>).
\<close>

theorem openNextFile_next_entry:
  assumes "heap_ok (heap w)" and "load_str (heap w) (m_name f) = Inr dirPath"
  shows "case next_entry n drv (vol w) (m_dir f) of
           None \<Rightarrow> openNextFile n cfg drv w f mode = Inl OutOfFuel
         | Some (v1, res, d1, fno) \<Rightarrow>
             if res \<noteq> FR_OK \<or> fname fno = [] then
               openNextFile n cfg drv w f mode =
                 Inr (w\<lparr>vol := v1\<rparr>, f\<lparr>m_dir := d1\<rparr>, File_ctor res) \<and>
               fully_empty (File_ctor res) \<and> m_res (File_ctor res) = res
             else
               take 1 (fname fno) \<noteq> ''.'' \<and>
               (let fn = entry_name cfg fno; sz = length dirPath + length fn + 2
                in if avail (heap w) < sz then
                     openNextFile n cfg drv w f mode =
                       Inr (w\<lparr>vol := v1\<rparr>, f\<lparr>m_dir := d1\<rparr>, File_ctor FR_NOT_ENOUGH_CORE) \<and>
                     fully_empty (File_ctor FR_NOT_ENOUGH_CORE) \<and>
                     m_res (File_ctor FR_NOT_ENOUGH_CORE) = FR_NOT_ENOUGH_CORE
                   else
                     (case SD_open cfg drv
                             (w\<lparr>vol := v1,
                                heap := (heap w)\<lparr>brk := Suc (brk (heap w)),
                                           avail := avail (heap w) - sz,
                                           objs := (objs (heap w))
                                             (brk (heap w) \<mapsto> (sz, Chars (join_path dirPath fn)))\<rparr>\<rparr>)
                             (join_path dirPath fn) mode of
                        Inl e \<Rightarrow> openNextFile n cfg drv w f mode = Inl e
                      | Inr (w3, child) \<Rightarrow>
                          openNextFile n cfg drv w f mode =
                            Inr (w3\<lparr>heap := (heap w3)\<lparr>objs := (objs (heap w3))(brk (heap w) := None),
                                                     avail := avail (heap w3) + sz\<rparr>\<rparr>,
                                 f\<lparr>m_dir := d1\<rparr>, child)))"
  using assms
proof (induction n arbitrary: w f)
  case 0
  then show ?case by simp
next
  case (Suc n)
  obtain v1 res d1 fno where rd: "f_readdir drv (vol w) (m_dir f) = (v1, res, d1, fno)"
    by (metis prod_cases4)
  show ?case
  proof (cases "res = FR_OK \<and> take 1 (fname fno) = ''.''")
    case True
    then obtain cs where nm: "fname fno = CHR ''.'' # cs" using take1_dot by blast
    have ne: "next_entry (Suc n) drv (vol w) (m_dir f) = next_entry n drv v1 d1"
      using rd True by simp
    have on: "openNextFile (Suc n) cfg drv w f mode =
        openNextFile n cfg drv (w\<lparr>vol := v1\<rparr>) (f\<lparr>m_dir := d1\<rparr>) mode"
      using rd True nm by simp
    have h: "heap_ok (heap (w\<lparr>vol := v1\<rparr>))" using Suc.prems(1) by simp
    have l: "load_str (heap (w\<lparr>vol := v1\<rparr>)) (m_name (f\<lparr>m_dir := d1\<rparr>)) = Inr dirPath"
      using Suc.prems(2) by simp
    show ?thesis
      using Suc.IH[OF h l] unfolding ne on
      by (simp cong: option.case_cong prod.case_cong sum.case_cong if_cong)
  next
    case False
    have ne: "next_entry (Suc n) drv (vol w) (m_dir f) = Some (v1, res, d1, fno)"
      using rd False by auto
    show ?thesis
    proof (cases "res \<noteq> FR_OK \<or> fname fno = []")
      case True
      have "openNextFile (Suc n) cfg drv w f mode =
              Inr (w\<lparr>vol := v1\<rparr>, f\<lparr>m_dir := d1\<rparr>, File_ctor res)"
        using rd True by auto
      then show ?thesis
        unfolding ne using True File_ctor_empty[of res]
        by (simp del: openNextFile.simps)
    next
      case ok: False
      then have r: "res = FR_OK" and nn: "fname fno \<noteq> []" by auto
      have nd: "take 1 (fname fno) \<noteq> ''.''" using False r by simp
      note e = openNextFile_entry[OF Suc.prems(1,2) rd[unfolded r] nn nd refl refl,
          of cfg n mode]
      show ?thesis
        unfolding ne
        using ok nd e File_ctor_empty[of FR_NOT_ENOUGH_CORE]
        by (simp add: Let_def del: openNextFile.simps
            cong: sum.case_cong prod.case_cong if_cong)
    qed
  qed
qed

text \<open>
  The theorem on the directory \<open>/r\<close> of the card: \<open>.cfg\<close> is skipped and \<open>/r/sub\<close> is
  opened, as a directory.
\<close>

theorem openNextFile_next_entry_witness:
  "heap_ok (heap dir_world) \<and>
   load_str (heap dir_world) (m_name dir_handle) = Inr ''/r'' \<and>
   next_entry 2 card_drv (vol dir_world) (m_dir dir_handle) =
     Some (True, FR_OK, \<lparr>dir_fs = 1, dir_sclust = 1, dir_dptr = 2\<rparr>, card_info ''sub'' 0x10 0) \<and>
   join_path ''/r'' ''sub'' = ''/r/sub'' \<and>
   (\<exists>w' g. openNextFile 2 stm32_cfg card_drv dir_world dir_handle 1 =
              Inr (w', dir_handle\<lparr>m_dir := \<lparr>dir_fs = 1, dir_sclust = 1, dir_dptr = 2\<rparr>\<rparr>, g) \<and>
            dir_bound (heap w') g \<and> load_str (heap w') (m_name g) = Inr ''/r/sub'')"
proof -
  have v: "vol dir_world = True" by (simp add: dir_world_def)
  have j: "join_path ''/r'' ''sub'' = ''/r/sub''" by (simp add: join_path_def)
  have en: "entry_name stm32_cfg (card_info ''sub'' 0x10 0) = ''sub''"
    by (simp add: entry_name_def stm32_cfg_def card_info_def)
  have fnm: "fname (card_info ''sub'' 0x10 0) = ''sub''" by (simp add: card_info_def)
  have av: "avail (heap dir_world) = 997" "brk (heap dir_world) = 3"
    by (simp_all add: dir_world_def)
  let ?w2 = "dir_world\<lparr>vol := True,
                heap := (heap dir_world)\<lparr>brk := Suc (brk (heap dir_world)),
                          avail := avail (heap dir_world) - (length ''/r'' + length ''sub'' + 2),
                          objs := (objs (heap dir_world))
                             (brk (heap dir_world) \<mapsto> (length ''/r'' + length ''sub'' + 2, Chars ''/r/sub''))\<rparr>\<rparr>"
  have op: "\<exists>w3 g. SD_open stm32_cfg card_drv ?w2 ''/r/sub'' 1 = Inr (w3, g) \<and>
      dir_bound ((heap w3)\<lparr>objs := (objs (heap w3))(brk (heap dir_world) := None),
                              avail := avail (heap w3) + (length ''/r'' + length ''sub'' + 2)\<rparr>) g \<and>
      load_str ((heap w3)\<lparr>objs := (objs (heap w3))(brk (heap dir_world) := None),
                              avail := avail (heap w3) + (length ''/r'' + length ''sub'' + 2)\<rparr>) (m_name g) = Inr ''/r/sub''"
    by (simp add: SD_open_def malloc_def poke_def free_def open_mode_def stm32_cfg_def
        dir_world_def card_drv_def card_open_def card_opendir_def FIL_zero_def
        File_ctor_def DIR_zero_def dir_bound_def path_bound_def dir_live_def load_str_def)
  from openNextFile_next_entry[OF dir_world_ok dir_world_name, where n=2 and drv=card_drv and cfg=stm32_cfg and mode=1] op
  show ?thesis
    using dir_world_ok dir_world_name j
    by (auto simp: v card_next_entry en fnm Let_def j av simp del: openNextFile.simps next_entry.simps)
qed

text \<open>
  Claim C6 as stated fails: the test for the dot is made on the short name, and the path
  is built from the long one. In a build that keeps the long name beside the short one,
  the iterator delivers the file of the long name \<open>.hidden\<close> and the short name
  \<open>HIDDEN~1\<close>; \<open>openNextFile\<close> does not skip it, and returns the file-bound handle of
  \<open>/r/.hidden\<close>, whose name begins with \<open>'.'\<close>.
\<close>

theorem openNextFile_opens_dot_long_name:
  "f_readdir lfn_drv (vol dir_world) (m_dir dir_handle) =
     (True, FR_OK, \<lparr>dir_fs = 1, dir_sclust = 1, dir_dptr = 1\<rparr>, lfn_info) \<and>
   entry_name lfn_cfg lfn_info = ''.hidden'' \<and>
   openNextFile (Suc 0) lfn_cfg lfn_drv dir_world dir_handle 1 =
     Inr (hidden_world, dir_handle\<lparr>m_dir := \<lparr>dir_fs = 1, dir_sclust = 1, dir_dptr = 1\<rparr>\<rparr>,
          hidden_handle) \<and>
   file_bound (heap hidden_world) hidden_handle \<and>
   load_str (heap hidden_world) (m_name hidden_handle) = Inr ''/r/.hidden'' \<and>
   name (heap hidden_world) hidden_handle = Inr (Some ''.hidden'')"
  by (simp add: lfn_cfg_def lfn_drv_def lfn_info_def stm32_cfg_def card_drv_def card_open_def
      card_opendir_def card_readdir_def dir_world_def dir_handle_def hidden_world_def
      hidden_handle_def entry_name_def load_str_def malloc_def poke_def free_def SD_open_def
      open_mode_def File_ctor_def DIR_zero_def FIL_zero_def Let_def name_def strrchr_def
      file_bound_def path_bound_def file_live_def load_FIL_def dir_live_def)

section \<open>Recursive listing\<close>

















lemma replicate_two: "replicate 2 x = [x, x]"
  by (simp add: numeral_2_eq_2)

text \<open>
  The recursive listing of \<open>/r\<close> on the card, without dates and sizes: \<open>n.txt\<close> comes
  two columns further in than \<open>sub\<close>, and the listing goes on after \<open>bad\<close>.
\<close>

lemma ls_card_listing:
  "\<exists>w'. ls (Suc (Suc (Suc (Suc (Suc (Suc 0)))))) stm32_cfg card_drv dir_world 4 0 dir_handle =
          Inr (w', dir_handle\<lparr>m_dir := \<lparr>dir_fs = 1, dir_sclust = 1, dir_dptr = 4\<rparr>\<rparr>) \<and>
        same_blocks (heap dir_world) (heap w') \<and>
        sink w' =
          [PrintStr ''sub'', Println,
           PrintChar CHR '' '', PrintChar CHR '' '', PrintStr ''n.txt'', Println,
           PrintStr ''bad'', PrintlnStr ''bad'', PrintStr ''Error to open dir: '', PrintlnStr ''bad'',
           PrintStr ''f.txt'', Println]"
  by (simp add: replicate_two stm32_cfg_def card_drv_def card_readdir_def card_entries_def
      card_info_def card_open_def card_opendir_def dir_world_def dir_handle_def
      print_indent_def entry_name_def load_str_def malloc_def poke_def free_def
      SD_open_def open_mode_def File_ctor_def DIR_zero_def FIL_zero_def File_bool_def
      close_def close_fil_def close_dir_def ls_leaf_def LS_R_def LS_DATE_def LS_SIZE_def
      same_blocks_def Let_def)




lemma open_card_dirs:
  "SD_open stm32_cfg card_drv (world_init 1000) ''/r'' 1 = Inr (opened_world ''/r'', opened_handle 1 0) \<and>
   SD_open stm32_cfg card_drv (world_init 1000) ''/t'' 1 = Inr (opened_world ''/t'', opened_handle 4 0) \<and>
   SD_open stm32_cfg card_drv (world_init 1000) ''/t/e'' 1 = Inr (opened_world ''/t/e'', opened_handle 5 0)"
  by (simp add: SD_open_def malloc_def poke_def free_def open_mode_def stm32_cfg_def
      world_init_def heap_init_def card_drv_def card_open_def card_opendir_def FIL_zero_def
      File_ctor_def DIR_zero_def opened_world_def opened_handle_def)



end
